theory Spec2Isabelle
  imports Complex_Main "HOL-Library.Word" "HOL-Library.Sublist"
begin

section \<open>Conventions of the embedding\<close>

text \<open>
  The firmware is one Arduino sketch with global state. The embedding passes that state
  explicitly in the record \<open>World\<close>; every procedure of the sketch is a function on it.
  \<^item> \<open>float\<close> values (temperatures, emissivity) are modelled as \<open>real\<close>: arithmetic is
    exact, there is no NaN and no rounding. The comparisons of the sketch are kept as written.
  \<^item> \<open>int\<close> values (coordinates, brightness) are modelled as \<open>int\<close>; the division and the
    remainder of C++ truncate towards zero and are written out as \<open>cdiv\<close> and \<open>crem\<close>.
    The values involved (screen coordinates, brightness) are far from the 32-bit limits.
  \<^item> \<open>unsigned long\<close> time stamps are 32-bit words, so their subtraction wraps.
  \<^item> Calls to collaborators (speaker, sensor, cloud property, serial port, display) are
    appended to the log \<open>effects\<close>. Of the drawing, the log keeps one entry for each
    redraw of the status line, the temperature, a button, the staged emissivity, the menu,
    a dialogue screen and the whole display; the primitive calls behind them are left out.
  \<^item> The touch controller is polled; every poll yields one \<open>TouchDetail\<close>. The blocking
    loops of the emissivity dialogue poll it themselves, so the procedures that may enter the
    dialogue take the list of the samples still to come and return what is left of it.
\<close>

section \<open>Configuration\<close>

definition COLOR_WARNING :: nat where "COLOR_WARNING = 16758311"  \<comment> \<open>0xFFB627\<close>
definition COLOR_SUCCESS :: nat where "COLOR_SUCCESS = 3985520"   \<comment> \<open>0x3CD070\<close>

definition HEADER_HEIGHT :: int where "HEADER_HEIGHT = 30"
definition FOOTER_HEIGHT :: int where "FOOTER_HEIGHT = 40"
definition STATUS_HEIGHT :: int where "STATUS_HEIGHT = 40"
definition MARGIN :: int where "MARGIN = 10"
definition BUTTON_HEIGHT :: int where "BUTTON_HEIGHT = 50"

definition MIN_TEMP_C :: real where "MIN_TEMP_C = - 20"
definition MAX_TEMP_C :: real where "MAX_TEMP_C = 400"
definition DEFAULT_TARGET_C :: real where "DEFAULT_TARGET_C = 180"
definition DEFAULT_TOLERANCE_C :: real where "DEFAULT_TOLERANCE_C = 5"
definition UPDATE_INTERVAL_MS :: "32 word" where "UPDATE_INTERVAL_MS = 2000"

definition DEFAULT_BRIGHTNESS :: int where "DEFAULT_BRIGHTNESS = 128"
definition DEFAULT_EMISSIVITY :: real where "DEFAULT_EMISSIVITY = 87 / 100"

definition EMISSIVITY_MIN :: real where "EMISSIVITY_MIN = 65 / 100"
definition EMISSIVITY_MAX :: real where "EMISSIVITY_MAX = 1"
definition EMISSIVITY_STEP :: real where "EMISSIVITY_STEP = 1 / 100"

section \<open>Integer division and remainder of C++\<close>

definition cdiv :: "int \<Rightarrow> int \<Rightarrow> int" where
  "cdiv a b = sgn a * sgn b * (\<bar>a\<bar> div \<bar>b\<bar>)"

definition crem :: "int \<Rightarrow> int \<Rightarrow> int" where
  "crem a b = a - b * cdiv a b"

section \<open>Data model\<close>

record Settings =
  useCelsius :: bool
  soundEnabled :: bool
  brightness :: int
  emissivity :: real
  targetTemp :: real
  tempTolerance :: real

text \<open>
  The preferences store of the platform library: typed values under string keys. A read
  names a default, returned when the key is missing or holds a value of another type.
\<close>

datatype pref = PBool bool | PInt int | PFloat real

type_synonym Preferences = "string \<rightharpoonup> pref"



definition getFloat :: "Preferences \<Rightarrow> string \<Rightarrow> real \<Rightarrow> real" where
  "getFloat p k d = (case p k of Some (PFloat r) \<Rightarrow> r | _ \<Rightarrow> d)"


definition Settings_save :: "Settings \<Rightarrow> Preferences \<Rightarrow> Preferences" where
  "Settings_save s p =
     p(''useCelsius'' \<mapsto> PBool (useCelsius s),
       ''soundEnabled'' \<mapsto> PBool (soundEnabled s),
       ''brightness'' \<mapsto> PInt (brightness s),
       ''emissivity'' \<mapsto> PFloat (emissivity s),
       ''targetTemp'' \<mapsto> PFloat (targetTemp s),
       ''tolerance'' \<mapsto> PFloat (tempTolerance s))"

datatype Screen = MAIN | SETTINGS

record SystemState =
  isMonitoring :: bool
  currentTemp :: real
  lastTempUpdate :: "32 word"
  lastSerialUpdate :: "32 word"
  lastBatteryCheck :: "32 word"
  lowBatteryWarning :: bool
  statusMessage :: string
  statusColor :: nat
  currentScreen :: Screen

record SettingsMenu =
  isOpen :: bool
  selectedItem :: int

definition numItems :: int where "numItems = 6"

record Button =
  btn_x :: int
  btn_y :: int
  width :: int
  height :: int
  label :: string
  enabled :: bool
  pressed :: bool
  isToggle :: bool
  toggleState :: bool

datatype effect =
    Tone nat nat
  | SerialReport real
  | DrawStatus string nat
  | DrawTemperature
  | CloudTemperature real
  | SetLEDColor nat
  | SetBrightness int
  | SensorSetEmissivity real
  | DrawButton string bool
  | DrawSettingsMenu
  | DrawEmissivityDialog
  | DrawEmissivityValue real
  | DrawConfirmDialog
  | UpdateDisplay

record World =
  settings :: Settings
  state :: SystemState
  settingsMenu :: SettingsMenu
  preferences :: Preferences
  lastPressedButton :: "Button option"
  touchProcessed :: bool
  effects :: "effect list"

text \<open>One poll of the touch controller: \<open>getCount()\<close> and the detail of the first point.\<close>

record TouchDetail =
  touch_count :: nat
  touch_x :: int
  touch_y :: int
  wasPressed :: bool
  wasReleased :: bool

text \<open>The display reports its size; the sketch queries it and so does the model.\<close>

record Display =
  display_width :: int
  display_height :: int

text \<open>
  The state after the global initialisers have run. The colour \<open>COLOR_TEXT\<close> is
  \<open>TFT_WHITE\<close> of the display library, which the sketch does not define: it is a parameter.
\<close>

definition default_Settings :: Settings where
  "default_Settings =
     \<lparr> useCelsius = True, soundEnabled = True, brightness = DEFAULT_BRIGHTNESS,
       emissivity = DEFAULT_EMISSIVITY, targetTemp = DEFAULT_TARGET_C,
       tempTolerance = DEFAULT_TOLERANCE_C \<rparr>"

definition default_SystemState :: "nat \<Rightarrow> SystemState" where
  "default_SystemState color_text =
     \<lparr> isMonitoring = False, currentTemp = 0, lastTempUpdate = 0, lastSerialUpdate = 0,
       lastBatteryCheck = 0, lowBatteryWarning = False, statusMessage = [],
       statusColor = color_text, currentScreen = MAIN \<rparr>"

definition default_World :: "nat \<Rightarrow> Preferences \<Rightarrow> World" where
  "default_World color_text p =
     \<lparr> settings = default_Settings, state = default_SystemState color_text,
       settingsMenu = \<lparr> isOpen = False, selectedItem = 0 \<rparr>,
       preferences = p, lastPressedButton = None, touchProcessed = False, effects = [] \<rparr>"

section \<open>Collaborator calls\<close>

definition emit :: "effect \<Rightarrow> World \<Rightarrow> World" where
  "emit e w = w\<lparr>effects := effects w @ [e]\<rparr>"

definition playSound :: "bool \<Rightarrow> World \<Rightarrow> World" where
  "playSound success w =
     (if \<not> soundEnabled (settings w) then w
      else emit (Tone (if success then 1000 else 500) (if success then 50 else 100)) w)"

definition save :: "World \<Rightarrow> World" where
  "save w = w\<lparr>preferences := Settings_save (settings w) (preferences w)\<rparr>"

definition updateStatus :: "string \<Rightarrow> nat \<Rightarrow> World \<Rightarrow> World" where
  "updateStatus message color w =
     (if message \<noteq> statusMessage (state w) \<or> color \<noteq> statusColor (state w)
      then emit (DrawStatus message color)
             (w\<lparr>state := (state w)\<lparr>statusMessage := message, statusColor := color\<rparr>\<rparr>)
      else w)"

definition drawTemperature :: "World \<Rightarrow> World" where
  "drawTemperature w = (if isOpen (settingsMenu w) then w else emit DrawTemperature w)"

definition updateDisplay :: "World \<Rightarrow> World" where
  "updateDisplay w = emit UpdateDisplay w"

section \<open>Temperature evaluation in \<open>loop\<close>\<close>

definition isValidTemperature :: "real \<Rightarrow> bool" where
  "isValidTemperature temp \<longleftrightarrow> temp > - 2000 \<and> temp < 20000"

definition readTemperature :: "real \<Rightarrow> real" where
  "readTemperature rawTemp = rawTemp / 100"

text \<open>The serial report of \<open>loop\<close>, gated by the time since the last one.\<close>

definition loop_serial :: "real \<Rightarrow> 32 word \<Rightarrow> World \<Rightarrow> World" where
  "loop_serial temp currentMillis w =
     (if currentMillis - lastSerialUpdate (state w) \<ge> UPDATE_INTERVAL_MS
      then emit (SerialReport temp) (w\<lparr>state := (state w)\<lparr>lastSerialUpdate := currentMillis\<rparr>\<rparr>)
      else w)"

text \<open>The block of \<open>loop\<close> under "Update display only on significant changes".\<close>

definition loop_ingest :: "real \<Rightarrow> 32 word \<Rightarrow> World \<Rightarrow> World" where
  "loop_ingest temp currentMillis w =
     (if \<bar>temp - currentTemp (state w)\<bar> \<ge> 1 \<or> currentTemp (state w) = 0 then
        let w1 = w\<lparr>state := (state w)\<lparr>currentTemp := temp, lastTempUpdate := currentMillis\<rparr>\<rparr>;
            w2 = (if isMonitoring (state w1) then
                    let diff = \<bar>temp - targetTemp (settings w1)\<bar> in
                    if diff > tempTolerance (settings w1) then
                      let w' = updateStatus ''Temperature Out of Range!'' COLOR_WARNING w1 in
                      if soundEnabled (settings w') then playSound False w' else w'
                    else updateStatus ''Monitoring'' COLOR_SUCCESS w1
                  else w1);
            tempF = temp * 9 / 5 + 32;
            w3 = emit (CloudTemperature tempF) w2
        in if \<not> isOpen (settingsMenu w3) then drawTemperature w3 else w3
      else w)"

text \<open>The sensor part of one pass of \<open>loop\<close>, from \<open>readTemperature\<close> on.\<close>

definition loop_sensor :: "real \<Rightarrow> 32 word \<Rightarrow> World \<Rightarrow> World" where
  "loop_sensor rawTemp currentMillis w =
     (let temp = readTemperature rawTemp
      in loop_ingest temp currentMillis (loop_serial temp currentMillis w))"

text \<open>\<open>checkTemperature\<close>, the wrapper that no procedure of the sketch calls.\<close>

definition checkTemperature :: "real \<Rightarrow> World \<Rightarrow> World" where
  "checkTemperature rawTemp w =
     (let temp = readTemperature rawTemp
      in if isValidTemperature temp then w\<lparr>state := (state w)\<lparr>currentTemp := temp\<rparr>\<rparr> else w)"

section \<open>Buttons\<close>

definition new_Button :: "int \<Rightarrow> int \<Rightarrow> int \<Rightarrow> int \<Rightarrow> string \<Rightarrow> bool \<Rightarrow> bool \<Rightarrow> Button" where
  "new_Button bx by bw bh lbl en tog =
     \<lparr> btn_x = bx, btn_y = by, width = bw, height = bh, label = lbl, enabled = en,
       pressed = False, isToggle = tog, toggleState = False \<rparr>"

definition contains :: "Button \<Rightarrow> int \<Rightarrow> int \<Rightarrow> bool" where
  "contains b tx ty \<longleftrightarrow>
     enabled b \<and> tx \<ge> btn_x b \<and> tx < btn_x b + width b \<and> ty \<ge> btn_y b \<and> ty < btn_y b + height b"

definition setPressed :: "bool \<Rightarrow> Button \<Rightarrow> World \<Rightarrow> Button \<times> World" where
  "setPressed isPressed b w =
     (if pressed b \<noteq> isPressed then
        let b' = b\<lparr>pressed := isPressed\<rparr>;
            w' = (if pressed b' \<and> soundEnabled (settings w) then playSound True w else w)
        in (b', emit (DrawButton (label b') (pressed b')) w')
      else (b, w))"

section \<open>Outcomes of a procedure that may not return\<close>

text \<open>
  \<open>Continue\<close>: the procedure returned. \<open>Restarted\<close>: it called \<open>ESP.restart()\<close>, in the
  world given. \<open>Blocked\<close>: a polling loop is still waiting when the samples run out.
  \<open>Panic\<close>: an integer division by zero.
\<close>

datatype 'a outcome = Continue 'a | Restarted World | Blocked | Panic

definition obind :: "'a outcome \<Rightarrow> ('a \<Rightarrow> 'b outcome) \<Rightarrow> 'b outcome" where
  "obind m f = (case m of Continue a \<Rightarrow> f a | Restarted w \<Rightarrow> Restarted w
                | Blocked \<Rightarrow> Blocked | Panic \<Rightarrow> Panic)"

section \<open>The emissivity dialogue\<close>

definition upBtn :: Button where "upBtn = new_Button 220 60 80 60 ''+'' True False"
definition downBtn :: Button where "downBtn = new_Button 220 140 80 60 ''-'' True False"
definition doneBtn :: Button where "doneBtn = new_Button 10 180 100 50 ''Done'' True False"
definition confirmBtn :: Button where "confirmBtn = new_Button 10 190 145 50 ''Restart'' True False"
definition cancelBtn :: Button where "cancelBtn = new_Button 165 190 145 50 ''Cancel'' True False"

text \<open>"Ensure starting value is within limits": the two guards on entry.\<close>

definition initial_tempEmissivity :: "real \<Rightarrow> real" where
  "initial_tempEmissivity e =
     (let t1 = (if e < EMISSIVITY_MIN then EMISSIVITY_MIN else e)
      in if t1 > EMISSIVITY_MAX then EMISSIVITY_MAX else t1)"

text \<open>The updates of the staged value under the + and the - button.\<close>

definition emissivity_up :: "real \<Rightarrow> real" where
  "emissivity_up t =
     (let t1 = t + EMISSIVITY_STEP in if t1 > EMISSIVITY_MAX then EMISSIVITY_MAX else t1)"

definition emissivity_down :: "real \<Rightarrow> real" where
  "emissivity_down t =
     (let t1 = t - EMISSIVITY_STEP in if t1 < EMISSIVITY_MIN then EMISSIVITY_MIN else t1)"

text \<open>
  The first block of the loop \<open>while (adjusting)\<close>: the staged value is shown when it
  differs from \<open>lastDrawnValue\<close>, which then takes its value.
\<close>

definition show_staged :: "real \<Rightarrow> real \<Rightarrow> World \<Rightarrow> World" where
  "show_staged tempEmissivity lastDrawnValue w =
     (if tempEmissivity \<noteq> lastDrawnValue then emit (DrawEmissivityValue tempEmissivity) w else w)"

text \<open>
  The loop \<open>while (adjusting)\<close>: one iteration per poll, \<open>show_staged\<close> first. The loop
  returns the staged value and \<open>valueChanged\<close> when Done is pressed, and \<open>None\<close> when the
  samples end before that.
\<close>

fun adjusting_loop ::
  "real \<Rightarrow> real \<Rightarrow> bool \<Rightarrow> real \<Rightarrow> TouchDetail list \<Rightarrow> World
    \<Rightarrow> (real \<times> bool \<times> World \<times> TouchDetail list) option" where
  "adjusting_loop originalEmissivity tempEmissivity valueChanged lastDrawnValue [] w = None"
| "adjusting_loop originalEmissivity tempEmissivity valueChanged lastDrawnValue (t # ts) w =
     (if touch_count t \<noteq> 0 \<and> wasPressed t then
        if contains upBtn (touch_x t) (touch_y t) then
          if tempEmissivity < EMISSIVITY_MAX then
            adjusting_loop originalEmissivity (emissivity_up tempEmissivity)
              (emissivity_up tempEmissivity \<noteq> originalEmissivity) tempEmissivity ts
              (playSound True (show_staged tempEmissivity lastDrawnValue w))
          else adjusting_loop originalEmissivity tempEmissivity valueChanged tempEmissivity ts
                 (show_staged tempEmissivity lastDrawnValue w)
        else if contains downBtn (touch_x t) (touch_y t) then
          if tempEmissivity > EMISSIVITY_MIN then
            adjusting_loop originalEmissivity (emissivity_down tempEmissivity)
              (emissivity_down tempEmissivity \<noteq> originalEmissivity) tempEmissivity ts
              (playSound True (show_staged tempEmissivity lastDrawnValue w))
          else adjusting_loop originalEmissivity tempEmissivity valueChanged tempEmissivity ts
                 (show_staged tempEmissivity lastDrawnValue w)
        else if contains doneBtn (touch_x t) (touch_y t) then
          Some (tempEmissivity, valueChanged,
                playSound True (show_staged tempEmissivity lastDrawnValue w), ts)
        else adjusting_loop originalEmissivity tempEmissivity valueChanged tempEmissivity ts
               (show_staged tempEmissivity lastDrawnValue w)
      else adjusting_loop originalEmissivity tempEmissivity valueChanged tempEmissivity ts
             (show_staged tempEmissivity lastDrawnValue w))"

text \<open>The loop \<open>while (waiting)\<close> of the confirmation screen.\<close>

fun waiting_loop :: "real \<Rightarrow> TouchDetail list \<Rightarrow> World \<Rightarrow> (World \<times> TouchDetail list) outcome" where
  "waiting_loop tempEmissivity [] w = Blocked"
| "waiting_loop tempEmissivity (t # ts) w =
     (if touch_count t \<noteq> 0 \<and> wasPressed t then
        if contains confirmBtn (touch_x t) (touch_y t) then
          let w1 = w\<lparr>settings := (settings w)\<lparr>emissivity := tempEmissivity\<rparr>\<rparr>;
              w2 = save w1;
              w3 = emit (SensorSetEmissivity (emissivity (settings w2))) w2
          in Restarted (playSound True w3)
        else if contains cancelBtn (touch_x t) (touch_y t) then
          Continue (playSound True w, ts)
        else waiting_loop tempEmissivity ts w
      else waiting_loop tempEmissivity ts w)"

definition adjustEmissivity :: "TouchDetail list \<Rightarrow> World \<Rightarrow> (World \<times> TouchDetail list) outcome" where
  "adjustEmissivity ins w =
     (let originalEmissivity = emissivity (settings w);
          tempEmissivity = initial_tempEmissivity (emissivity (settings w))
      in case adjusting_loop originalEmissivity tempEmissivity False (- 1) ins
                (emit DrawEmissivityDialog w) of
           None \<Rightarrow> Blocked
         | Some (staged, valueChanged, w1, ins1) \<Rightarrow>
             obind (if valueChanged then waiting_loop staged ins1 (emit DrawConfirmDialog w1)
                    else Continue (w1, ins1))
               (\<lambda>(w2, ins2). Continue (updateDisplay (drawTemperature w2), ins2)))"

section \<open>The settings menu\<close>

definition adjust_brightness :: "int \<Rightarrow> int" where
  "adjust_brightness b = crem (b + 64) 256"

definition adjust_targetTemp :: "bool \<Rightarrow> real \<Rightarrow> real" where
  "adjust_targetTemp celsius t =
     (let t1 = t + (if celsius then 5 else 10)
      in if t1 > MAX_TEMP_C then MIN_TEMP_C else t1)"

definition adjust_tempTolerance :: "bool \<Rightarrow> real \<Rightarrow> real" where
  "adjust_tempTolerance celsius t =
     (let t1 = t + (if celsius then 1 / 2 else 1)
      in if t1 > 20 then 1 else t1)"

text \<open>The \<open>switch (touchedItem)\<close> of \<open>handleSettingsTouch\<close>.\<close>

definition menu_item_action ::
  "int \<Rightarrow> TouchDetail list \<Rightarrow> World \<Rightarrow> (World \<times> TouchDetail list) outcome" where
  "menu_item_action touchedItem ins w =
     (if touchedItem = 0 then
        Continue (w\<lparr>settings := (settings w)\<lparr>useCelsius := \<not> useCelsius (settings w)\<rparr>\<rparr>, ins)
      else if touchedItem = 1 then
        let w1 = w\<lparr>settings := (settings w)\<lparr>soundEnabled := \<not> soundEnabled (settings w)\<rparr>\<rparr>
        in Continue (if soundEnabled (settings w1) then playSound True w1 else w1, ins)
      else if touchedItem = 2 then
        let w1 = w\<lparr>settings := (settings w)\<lparr>brightness := adjust_brightness (brightness (settings w))\<rparr>\<rparr>
        in Continue (emit (SetBrightness (brightness (settings w1))) w1, ins)
      else if touchedItem = 3 then adjustEmissivity ins w
      else if touchedItem = 4 then
        Continue (w\<lparr>settings := (settings w)
                    \<lparr>targetTemp := adjust_targetTemp (useCelsius (settings w)) (targetTemp (settings w))\<rparr>\<rparr>, ins)
      else if touchedItem = 5 then
        Continue (w\<lparr>settings := (settings w)
                    \<lparr>tempTolerance := adjust_tempTolerance (useCelsius (settings w)) (tempTolerance (settings w))\<rparr>\<rparr>, ins)
      else Continue (w, ins))"

definition handleSettingsTouch ::
  "Display \<Rightarrow> int \<Rightarrow> int \<Rightarrow> TouchDetail list \<Rightarrow> World \<Rightarrow> (World \<times> TouchDetail list) outcome" where
  "handleSettingsTouch d tx ty ins w =
     (let menuY = HEADER_HEIGHT + MARGIN;
          menuHeight = display_height d - HEADER_HEIGHT - FOOTER_HEIGHT - 2 * MARGIN;
          itemHeight = cdiv menuHeight numItems
      in obind
           (if tx \<ge> MARGIN \<and> tx \<le> display_width d - MARGIN \<and> ty \<ge> menuY \<and> ty \<le> menuY + menuHeight then
              if itemHeight = 0 then Panic
              else
                let touchedItem = cdiv (ty - menuY) itemHeight in
                if touchedItem \<ge> 0 \<and> touchedItem < numItems then
                  obind (menu_item_action touchedItem ins
                           (w\<lparr>settingsMenu := (settingsMenu w)\<lparr>selectedItem := touchedItem\<rparr>\<rparr>))
                    (\<lambda>(w1, ins1).
                       let w2 = save w1;
                           w3 = (if soundEnabled (settings w2) then playSound True w2 else w2)
                       in Continue (emit DrawSettingsMenu w3, ins1))
                else Continue (w, ins)
            else Continue (w, ins))
           (\<lambda>(w4, ins4).
              if ty > display_height d - FOOTER_HEIGHT then
                Continue (updateDisplay (save (w4\<lparr>settingsMenu := (settingsMenu w4)\<lparr>isOpen := False\<rparr>\<rparr>)), ins4)
              else Continue (w4, ins4)))"

section \<open>The touch dispatcher\<close>

text \<open>The body of \<open>if (lastPressedButton->contains(touch.x, touch.y))\<close> in the release branch.\<close>

definition release_action :: "Button \<Rightarrow> World \<Rightarrow> World" where
  "release_action b w =
     (if label b = ''Monitor'' \<or> label b = ''Stop'' then
        let w1 = w\<lparr>state := (state w)\<lparr>isMonitoring := \<not> isMonitoring (state w)\<rparr>\<rparr>
        in emit (SetLEDColor (if isMonitoring (state w1) then 16777215 else 0)) w1
      else if label b = ''Settings'' \<or> label b = ''Back'' then
        let w1 = w\<lparr>settingsMenu := (settingsMenu w)\<lparr>isOpen := \<not> isOpen (settingsMenu w)\<rparr>\<rparr>
        in w1\<lparr>state := (state w1)\<lparr>currentScreen := (if isOpen (settingsMenu w1) then SETTINGS else MAIN)\<rparr>\<rparr>
      else w)"

definition handleTouch ::
  "Display \<Rightarrow> TouchDetail \<Rightarrow> TouchDetail list \<Rightarrow> World \<Rightarrow> (World \<times> TouchDetail list) outcome" where
  "handleTouch d touch ins w =
     (if touch_count touch \<noteq> 0 then
        if wasPressed touch \<and> \<not> touchProcessed w then
          let w1 = w\<lparr>touchProcessed := True\<rparr>;
              footerY = display_height d - FOOTER_HEIGHT
          in if touch_y touch \<ge> footerY then
               let buttonWidth = cdiv (display_width d - 3 * MARGIN) 2 in
               if \<not> isOpen (settingsMenu w1) \<and> touch_x touch \<ge> MARGIN
                  \<and> touch_x touch < MARGIN + buttonWidth then
                 let monitorBtn = (new_Button MARGIN
                                     (footerY + cdiv (FOOTER_HEIGHT - BUTTON_HEIGHT) 2)
                                     buttonWidth (BUTTON_HEIGHT - 4)
                                     (if isMonitoring (state w1) then ''Stop'' else ''Monitor'')
                                     True True)\<lparr>toggleState := isMonitoring (state w1)\<rparr>;
                     (b, w2) = setPressed True monitorBtn w1
                 in Continue (w2\<lparr>lastPressedButton := Some b\<rparr>, ins)
               else if touch_x touch \<ge> display_width d - buttonWidth - MARGIN
                       \<and> touch_x touch < display_width d - MARGIN then
                 let settingsBtn = new_Button (display_width d - buttonWidth - MARGIN)
                                     (footerY + cdiv (FOOTER_HEIGHT - BUTTON_HEIGHT) 2)
                                     buttonWidth (BUTTON_HEIGHT - 4)
                                     (if isOpen (settingsMenu w1) then ''Back'' else ''Settings'')
                                     True False;
                     (b, w2) = setPressed True settingsBtn w1
                 in Continue (w2\<lparr>lastPressedButton := Some b\<rparr>, ins)
               else Continue (w1, ins)
             else if isOpen (settingsMenu w1) then
               handleSettingsTouch d (touch_x touch) (touch_y touch) ins w1
             else Continue (w1, ins)
        else if wasReleased touch \<and> lastPressedButton w \<noteq> None \<and> touchProcessed w then
          (case lastPressedButton w of
             None \<Rightarrow> Continue (w, ins)
           | Some lpb \<Rightarrow>
               let w1 = w\<lparr>touchProcessed := False\<rparr>;
                   w2 = (if contains lpb (touch_x touch) (touch_y touch)
                         then release_action lpb w1 else w1);
                   (b, w3) = setPressed False lpb w2;
                   w4 = w3\<lparr>lastPressedButton := None\<rparr>
               in Continue (updateDisplay w4, ins))
        else Continue (w, ins)
      else
        let w1 = w\<lparr>touchProcessed := False\<rparr> in
        (case lastPressedButton w1 of
           None \<Rightarrow> Continue (w1, ins)
         | Some lpb \<Rightarrow>
             let (b, w2) = setPressed False lpb w1
             in Continue (w2\<lparr>lastPressedButton := None\<rparr>, ins)))"

text \<open>
  The touch part of successive passes of \<open>loop\<close>: each pass polls once and calls
  \<open>handleTouch\<close>, which may poll further samples in the emissivity dialogue. What
  \<open>handleTouch\<close> returns is always a suffix of the samples it was given, so the \<open>drop\<close>
  below is that suffix itself; it is written this way to make the recursion structural.
\<close>

fun run_touch :: "Display \<Rightarrow> TouchDetail list \<Rightarrow> World \<Rightarrow> World outcome" where
  "run_touch d [] w = Continue w"
| "run_touch d (t # ts) w =
     (case handleTouch d t ts w of
        Continue (w', ts') \<Rightarrow> run_touch d (drop (length ts - length ts') ts) w'
      | Restarted w' \<Rightarrow> Restarted w'
      | Blocked \<Rightarrow> Blocked
      | Panic \<Rightarrow> Panic)"

section \<open>Observations and starting states used by the theorems\<close>

text \<open>What a step appended to the log of collaborator calls.\<close>

definition new_effects :: "World \<Rightarrow> World \<Rightarrow> effect list" where
  "new_effects w w' = drop (length (effects w)) (effects w')"

text \<open>Everything but the log of collaborator calls is the same in both worlds.\<close>

definition same_program_state :: "World \<Rightarrow> World \<Rightarrow> bool" where
  "same_program_state w w' \<longleftrightarrow>
     settings w' = settings w \<and> state w' = state w \<and> settingsMenu w' = settingsMenu w
     \<and> preferences w' = preferences w \<and> lastPressedButton w' = lastPressedButton w
     \<and> touchProcessed w' = touchProcessed w"

definition in_emissivity_range :: "real \<Rightarrow> bool" where
  "in_emissivity_range t \<longleftrightarrow> EMISSIVITY_MIN \<le> t \<and> t \<le> EMISSIVITY_MAX"

text \<open>The log only grows, and every staged value shown since \<open>w\<close> is within the limits.\<close>

definition shown_in_range :: "World \<Rightarrow> World \<Rightarrow> bool" where
  "shown_in_range w w' \<longleftrightarrow>
     (\<exists>xs. effects w' = effects w @ xs
           \<and> list_all (\<lambda>e. case e of DrawEmissivityValue v \<Rightarrow> in_emissivity_range v | _ \<Rightarrow> True) xs)"

text \<open>
  The samples of \<open>ins\<close> before \<open>ins'\<close> were polled, and the last of them showed a contact.
\<close>

definition ends_with_contact :: "TouchDetail list \<Rightarrow> TouchDetail list \<Rightarrow> bool" where
  "ends_with_contact ins ins' \<longleftrightarrow> (\<exists>pre p. ins = pre @ p # ins' \<and> touch_count p \<noteq> 0)"

text \<open>What a procedure returned, and the world in which it restarted the device.\<close>

definition returned :: "'a outcome \<Rightarrow> 'a option" where
  "returned m = (case m of Continue a \<Rightarrow> Some a | Restarted w \<Rightarrow> None
                 | Blocked \<Rightarrow> None | Panic \<Rightarrow> None)"


text \<open>Touch samples: a new contact, a lifted contact, no contact.\<close>

definition press_at :: "int \<Rightarrow> int \<Rightarrow> TouchDetail" where
  "press_at tx ty =
     \<lparr> touch_count = 1, touch_x = tx, touch_y = ty, wasPressed = True, wasReleased = False \<rparr>"

definition release_at :: "int \<Rightarrow> int \<Rightarrow> TouchDetail" where
  "release_at tx ty =
     \<lparr> touch_count = 1, touch_x = tx, touch_y = ty, wasPressed = False, wasReleased = True \<rparr>"

definition no_touch :: TouchDetail where
  "no_touch =
     \<lparr> touch_count = 0, touch_x = 0, touch_y = 0, wasPressed = False, wasReleased = False \<rparr>"

text \<open>The 320 by 240 screen for which the emissivity dialogue places its buttons.\<close>

definition cores3 :: Display where
  "cores3 = \<lparr> display_width = 320, display_height = 240 \<rparr>"

text \<open>The device after power-up with an empty preferences store.\<close>

definition booted :: World where
  "booted = default_World 65535 Map.empty"

text \<open>
  Monitoring at the default target of 180 degrees, reached from \<open>booted\<close> by one sample of
  18000 hundredths of a degree.
\<close>

definition monitoring_at_target :: World where
  "monitoring_at_target = loop_sensor 18000 0 (booted\<lparr>state := (state booted)\<lparr>isMonitoring := True\<rparr>\<rparr>)"



text \<open>The scenario with target 338, tolerance 5, Celsius, monitoring on, nothing measured yet.\<close>

definition scenario_start :: "nat \<Rightarrow> Preferences \<Rightarrow> World" where
  "scenario_start color_text p =
     (default_World color_text p)
       \<lparr>settings := default_Settings\<lparr>useCelsius := True, targetTemp := 338, tempTolerance := 5\<rparr>,
        state := (default_SystemState color_text)\<lparr>isMonitoring := True\<rparr>\<rparr>"

section \<open>Frame lemmas of the collaborator calls\<close>

lemmas config_defs =
  COLOR_WARNING_def COLOR_SUCCESS_def HEADER_HEIGHT_def FOOTER_HEIGHT_def STATUS_HEIGHT_def
  MARGIN_def BUTTON_HEIGHT_def MIN_TEMP_C_def MAX_TEMP_C_def DEFAULT_TARGET_C_def
  DEFAULT_TOLERANCE_C_def UPDATE_INTERVAL_MS_def DEFAULT_BRIGHTNESS_def DEFAULT_EMISSIVITY_def
  EMISSIVITY_MIN_def EMISSIVITY_MAX_def EMISSIVITY_STEP_def

lemmas world_defs = default_World_def default_Settings_def default_SystemState_def

lemma emit_frame [simp]:
  "settings (emit e w) = settings w" "state (emit e w) = state w"
  "settingsMenu (emit e w) = settingsMenu w" "preferences (emit e w) = preferences w"
  "lastPressedButton (emit e w) = lastPressedButton w" "touchProcessed (emit e w) = touchProcessed w"
  "effects (emit e w) = effects w @ [e]"
  by (simp_all add: emit_def)

lemma playSound_frame [simp]:
  "settings (playSound b w) = settings w" "state (playSound b w) = state w"
  "settingsMenu (playSound b w) = settingsMenu w" "preferences (playSound b w) = preferences w"
  "lastPressedButton (playSound b w) = lastPressedButton w"
  "touchProcessed (playSound b w) = touchProcessed w"
  by (simp_all add: playSound_def)

lemma playSound_effects:
  "effects (playSound b w) =
     effects w @ (if soundEnabled (settings w)
                  then [Tone (if b then 1000 else 500) (if b then 50 else 100)] else [])"
  by (simp add: playSound_def)

lemma updateStatus_frame [simp]:
  "settings (updateStatus m c w) = settings w"
  "settingsMenu (updateStatus m c w) = settingsMenu w"
  "preferences (updateStatus m c w) = preferences w"
  "lastPressedButton (updateStatus m c w) = lastPressedButton w"
  "touchProcessed (updateStatus m c w) = touchProcessed w"
  "currentTemp (state (updateStatus m c w)) = currentTemp (state w)"
  "isMonitoring (state (updateStatus m c w)) = isMonitoring (state w)"
  "statusMessage (state (updateStatus m c w)) = m"
  "statusColor (state (updateStatus m c w)) = c"
  by (auto simp add: updateStatus_def)

lemma updateStatus_effects:
  "effects (updateStatus m c w) =
     effects w @ (if m \<noteq> statusMessage (state w) \<or> c \<noteq> statusColor (state w)
                  then [DrawStatus m c] else [])"
  by (simp add: updateStatus_def)

lemma drawTemperature_frame [simp]:
  "settings (drawTemperature w) = settings w" "state (drawTemperature w) = state w"
  "settingsMenu (drawTemperature w) = settingsMenu w"
  "preferences (drawTemperature w) = preferences w"
  "lastPressedButton (drawTemperature w) = lastPressedButton w"
  "touchProcessed (drawTemperature w) = touchProcessed w"
  by (simp_all add: drawTemperature_def)

lemma drawTemperature_effects:
  "effects (drawTemperature w) =
     effects w @ (if isOpen (settingsMenu w) then [] else [DrawTemperature])"
  by (simp add: drawTemperature_def)

lemma new_effects_append: "effects w' = effects w @ xs \<Longrightarrow> new_effects w w' = xs"
  by (simp add: new_effects_def)

section \<open>The sensor pass of \<open>loop\<close>\<close>

lemma loop_serial_frame [simp]:
  "settings (loop_serial t n w) = settings w"
  "settingsMenu (loop_serial t n w) = settingsMenu w"
  "preferences (loop_serial t n w) = preferences w"
  "lastPressedButton (loop_serial t n w) = lastPressedButton w"
  "touchProcessed (loop_serial t n w) = touchProcessed w"
  "currentTemp (state (loop_serial t n w)) = currentTemp (state w)"
  "isMonitoring (state (loop_serial t n w)) = isMonitoring (state w)"
  "statusMessage (state (loop_serial t n w)) = statusMessage (state w)"
  "statusColor (state (loop_serial t n w)) = statusColor (state w)"
  by (simp_all add: loop_serial_def)

lemma loop_serial_effects:
  "effects (loop_serial t n w) =
     effects w @ (if n - lastSerialUpdate (state w) \<ge> UPDATE_INTERVAL_MS
                  then [SerialReport t] else [])"
  by (simp add: loop_serial_def)

text \<open>A sample closer than 1 to a non-zero \<open>currentTemp\<close> changes nothing at all.\<close>

lemma loop_ingest_insignificant:
  "\<bar>temp - currentTemp (state w)\<bar> < 1 \<Longrightarrow> currentTemp (state w) \<noteq> 0
   \<Longrightarrow> loop_ingest temp now w = w"
  by (simp add: loop_ingest_def)

text \<open>Any other sample is stored, whatever its value: the block has no validity test.\<close>

lemma loop_ingest_significant:
  "\<bar>temp - currentTemp (state w)\<bar> \<ge> 1 \<or> currentTemp (state w) = 0 \<Longrightarrow>
   currentTemp (state (loop_ingest temp now w)) = temp"
  by (simp add: loop_ingest_def Let_def)

lemma loop_ingest_status:
  "\<bar>temp - currentTemp (state w)\<bar> \<ge> 1 \<or> currentTemp (state w) = 0
   \<Longrightarrow> isMonitoring (state w) \<Longrightarrow>
   statusMessage (state (loop_ingest temp now w)) =
     (if \<bar>temp - targetTemp (settings w)\<bar> > tempTolerance (settings w)
      then ''Temperature Out of Range!'' else ''Monitoring'') \<and>
   statusColor (state (loop_ingest temp now w)) =
     (if \<bar>temp - targetTemp (settings w)\<bar> > tempTolerance (settings w)
      then COLOR_WARNING else COLOR_SUCCESS)"
  by (simp add: loop_ingest_def Let_def)

lemma loop_ingest_frame [simp]:
  "settings (loop_ingest t n w) = settings w"
  "settingsMenu (loop_ingest t n w) = settingsMenu w"
  "preferences (loop_ingest t n w) = preferences w"
  "isMonitoring (state (loop_ingest t n w)) = isMonitoring (state w)"
  by (simp_all add: loop_ingest_def Let_def)

lemma loop_ingest_effects:
  "effects (loop_ingest t n w) =
     effects w @
     (if \<bar>t - currentTemp (state w)\<bar> \<ge> 1 \<or> currentTemp (state w) = 0 then
        (if isMonitoring (state w) then
           (if \<bar>t - targetTemp (settings w)\<bar> > tempTolerance (settings w) then
              (if ''Temperature Out of Range!'' \<noteq> statusMessage (state w)
                  \<or> COLOR_WARNING \<noteq> statusColor (state w)
               then [DrawStatus ''Temperature Out of Range!'' COLOR_WARNING] else [])
              @ (if soundEnabled (settings w) then [Tone 500 100] else [])
            else
              (if ''Monitoring'' \<noteq> statusMessage (state w) \<or> COLOR_SUCCESS \<noteq> statusColor (state w)
               then [DrawStatus ''Monitoring'' COLOR_SUCCESS] else []))
         else [])
        @ [CloudTemperature (t * 9 / 5 + 32)]
        @ (if isOpen (settingsMenu w) then [] else [DrawTemperature])
      else [])"
  by (simp add: loop_ingest_def Let_def updateStatus_effects playSound_effects
        drawTemperature_effects)

lemma loop_sensor_frame [simp]:
  "settings (loop_sensor t n w) = settings w"
  "settingsMenu (loop_sensor t n w) = settingsMenu w"
  "preferences (loop_sensor t n w) = preferences w"
  "isMonitoring (state (loop_sensor t n w)) = isMonitoring (state w)"
  by (simp_all add: loop_sensor_def Let_def)

lemma loop_sensor_significant:
  "\<bar>readTemperature s - currentTemp (state w)\<bar> \<ge> 1 \<or> currentTemp (state w) = 0 \<Longrightarrow>
   currentTemp (state (loop_sensor s n w)) = readTemperature s"
  by (simp add: loop_sensor_def Let_def loop_ingest_significant)

lemma loop_sensor_status:
  "\<bar>readTemperature s - currentTemp (state w)\<bar> \<ge> 1 \<or> currentTemp (state w) = 0
   \<Longrightarrow> isMonitoring (state w) \<Longrightarrow>
   statusMessage (state (loop_sensor s n w)) =
     (if \<bar>readTemperature s - targetTemp (settings w)\<bar> > tempTolerance (settings w)
      then ''Temperature Out of Range!'' else ''Monitoring'') \<and>
   statusColor (state (loop_sensor s n w)) =
     (if \<bar>readTemperature s - targetTemp (settings w)\<bar> > tempTolerance (settings w)
      then COLOR_WARNING else COLOR_SUCCESS)"
  by (simp add: loop_sensor_def Let_def loop_ingest_status)

lemma loop_sensor_effects:
  "new_effects w (loop_sensor s n w) =
     new_effects w (loop_serial (readTemperature s) n w)
     @ new_effects (loop_serial (readTemperature s) n w) (loop_sensor s n w)"
  by (simp add: new_effects_def loop_sensor_def Let_def loop_ingest_effects loop_serial_effects)

lemma booted_fields:
  "currentTemp (state booted) = 0" "\<not> isOpen (settingsMenu booted)"
  "\<not> isMonitoring (state booted)" "settings booted = default_Settings"
  "preferences booted = Map.empty" "lastPressedButton booted = None"
  "\<not> touchProcessed booted"
  by (simp_all add: booted_def world_defs)

lemma monitoring_at_target_fields:
  "currentTemp (state monitoring_at_target) = 180"
  "statusMessage (state monitoring_at_target) = ''Monitoring''"
  "statusColor (state monitoring_at_target) = COLOR_SUCCESS"
  "isMonitoring (state monitoring_at_target)"
  "settings monitoring_at_target = default_Settings"
  by (simp_all add: monitoring_at_target_def loop_sensor_significant loop_sensor_status
        readTemperature_def booted_def world_defs config_defs)

subsection \<open>Out-of-band samples\<close>

text \<open>
  The wrapper \<open>checkTemperature\<close> guards its assignment to \<open>currentTemp\<close>: a value
  that \<open>isValidTemperature\<close> refuses is not stored.
\<close>

lemma checkTemperature_guard:
  "\<not> isValidTemperature (readTemperature rawTemp) \<Longrightarrow> checkTemperature rawTemp w = w"
  by (simp add: checkTemperature_def)

text \<open>
  Claim C1 says that a sample whose Celsius value lies outside the valid band leaves
  \<open>currentTemp\<close> and the alert status as they were. The sensor pass of \<open>loop\<close> never
  calls \<open>isValidTemperature\<close>: with the device monitoring at its target of 180 degrees and
  showing "Monitoring", the raw sample 50000 (500 degrees, above \<open>MAX_TEMP_C\<close> and refused by
  \<open>isValidTemperature\<close>) is stored as \<open>currentTemp\<close> and turns the status to the warning.
\<close>

theorem loop_takes_out_of_band_sample:
  "\<not> isValidTemperature 50000 \<and> readTemperature 50000 = 500
   \<and> MAX_TEMP_C < readTemperature 50000
   \<and> currentTemp (state monitoring_at_target) = 180
   \<and> statusMessage (state monitoring_at_target) = ''Monitoring''
   \<and> currentTemp (state (loop_sensor 50000 10 monitoring_at_target)) = 500
   \<and> statusMessage (state (loop_sensor 50000 10 monitoring_at_target)) = ''Temperature Out of Range!''"
  by (simp add: monitoring_at_target_fields loop_sensor_significant loop_sensor_status
        isValidTemperature_def readTemperature_def world_defs config_defs)

subsection \<open>Samples close to the last one\<close>

lemma loop_sensor_second_sample:
  assumes "\<bar>readTemperature s2 - readTemperature s1\<bar> < 1" and "readTemperature s1 \<noteq> 0"
    and "\<bar>readTemperature s1 - currentTemp (state w)\<bar> \<ge> 1 \<or> currentTemp (state w) = 0"
  shows "loop_sensor s2 n2 (loop_sensor s1 n1 w)
         = loop_serial (readTemperature s2) n2 (loop_sensor s1 n1 w)"
proof -
  have c: "currentTemp (state (loop_sensor s1 n1 w)) = readTemperature s1"
    using assms(3) by (rule loop_sensor_significant)
  show ?thesis unfolding loop_sensor_def [of s2] Let_def
    by (rule loop_ingest_insignificant) (simp_all add: c assms)
qed

text \<open>
  Claim C4, as amended: let the raw sample \<open>s1\<close> be taken as significant (it differs from
  the stored \<open>currentTemp\<close> by at least 1, or \<open>currentTemp\<close> is 0) and convert to a value
  other than 0. Then a following sample \<open>s2\<close> whose converted value differs from that of
  \<open>s1\<close> by less than 1 does nothing but the time-gated serial report: \<open>currentTemp\<close> keeps
  the value of \<open>s1\<close>, the temperature is not redrawn, nothing is written to the cloud
  property and the status line is not redrawn.
\<close>

theorem close_samples_dropped:
  assumes "\<bar>readTemperature s2 - readTemperature s1\<bar> < 1" and "readTemperature s1 \<noteq> 0"
    and "\<bar>readTemperature s1 - currentTemp (state w)\<bar> \<ge> 1 \<or> currentTemp (state w) = 0"
  shows "loop_sensor s2 n2 (loop_sensor s1 n1 w)
           = loop_serial (readTemperature s2) n2 (loop_sensor s1 n1 w)
     \<and> currentTemp (state (loop_sensor s2 n2 (loop_sensor s1 n1 w))) = readTemperature s1
     \<and> DrawTemperature
         \<notin> set (new_effects (loop_sensor s1 n1 w) (loop_sensor s2 n2 (loop_sensor s1 n1 w)))
     \<and> (\<forall>f. CloudTemperature f
         \<notin> set (new_effects (loop_sensor s1 n1 w) (loop_sensor s2 n2 (loop_sensor s1 n1 w))))
     \<and> (\<forall>m c. DrawStatus m c
         \<notin> set (new_effects (loop_sensor s1 n1 w) (loop_sensor s2 n2 (loop_sensor s1 n1 w))))"
proof -
  have c: "currentTemp (state (loop_sensor s1 n1 w)) = readTemperature s1"
    using assms(3) by (rule loop_sensor_significant)
  have e: "loop_sensor s2 n2 (loop_sensor s1 n1 w)
           = loop_serial (readTemperature s2) n2 (loop_sensor s1 n1 w)"
    using assms by (rule loop_sensor_second_sample)
  show ?thesis unfolding e
    by (simp add: c new_effects_def loop_serial_effects)
qed

text \<open>The samples 2500 then 2550 (25 and 25.5 degrees) on the device as booted.\<close>

theorem close_samples_dropped_witness:
  "\<bar>readTemperature 2550 - readTemperature 2500\<bar> < 1 \<and> readTemperature 2500 \<noteq> 0
   \<and> currentTemp (state booted) = 0
   \<and> currentTemp (state (loop_sensor 2550 10 (loop_sensor 2500 0 booted))) = 25
   \<and> DrawTemperature
       \<notin> set (new_effects (loop_sensor 2500 0 booted) (loop_sensor 2550 10 (loop_sensor 2500 0 booted)))"
proof -
  have h: "\<bar>readTemperature 2550 - readTemperature 2500\<bar> < 1" "readTemperature 2500 \<noteq> 0"
    "\<bar>readTemperature 2500 - currentTemp (state booted)\<bar> \<ge> 1 \<or> currentTemp (state booted) = 0"
    by (simp_all add: readTemperature_def booted_fields)
  have r: "currentTemp (state (loop_sensor 2550 10 (loop_sensor 2500 0 booted)))
             = readTemperature 2500
     \<and> DrawTemperature
         \<notin> set (new_effects (loop_sensor 2500 0 booted) (loop_sensor 2550 10 (loop_sensor 2500 0 booted)))"
    using close_samples_dropped [OF h, of 10 0] by blast
  show ?thesis
    using r h(1,2) by (simp add: booted_fields readTemperature_def)
qed

text \<open>
  The claim as stated fails in two ways. After the sample 0 the stored value is 0, so the
  sample 50 (half a degree) is taken and pushed although it differs by less than 1. And
  after 1000, the sample 1090 is dropped, so 1150 is compared with the stored 10 and not
  with 10.9: it is taken although it differs from its predecessor by 0.6.
\<close>

theorem close_samples_counterexample:
  "\<bar>readTemperature 50 - readTemperature 0\<bar> < 1
   \<and> currentTemp (state (loop_sensor 0 0 booted)) = 0
   \<and> currentTemp (state (loop_sensor 50 10 (loop_sensor 0 0 booted))) = 1 / 2
   \<and> CloudTemperature (329 / 10)
       \<in> set (new_effects (loop_sensor 0 0 booted) (loop_sensor 50 10 (loop_sensor 0 0 booted)))
   \<and> DrawTemperature
       \<in> set (new_effects (loop_sensor 0 0 booted) (loop_sensor 50 10 (loop_sensor 0 0 booted)))
   \<and> \<bar>readTemperature 1150 - readTemperature 1090\<bar> < 1
   \<and> currentTemp (state (loop_sensor 1090 10 (loop_sensor 1000 0 booted))) = 10
   \<and> currentTemp (state (loop_sensor 1150 20 (loop_sensor 1090 10 (loop_sensor 1000 0 booted))))
       = 23 / 2"
proof -
  note z = booted_fields(1-3)
  have a: "currentTemp (state (loop_sensor 0 0 booted)) = 0"
    by (simp add: loop_sensor_significant z readTemperature_def)
  have b: "currentTemp (state (loop_sensor 50 10 (loop_sensor 0 0 booted))) = 1 / 2"
    by (simp add: loop_sensor_significant a readTemperature_def)
  have e: "new_effects (loop_sensor 0 0 booted) (loop_sensor 50 10 (loop_sensor 0 0 booted))
         = new_effects (loop_sensor 0 0 booted) (loop_serial (1 / 2) 10 (loop_sensor 0 0 booted))
           @ [CloudTemperature (329 / 10), DrawTemperature]"
    by (simp add: loop_sensor_effects readTemperature_def)
       (simp add: new_effects_def loop_sensor_def [of 50] Let_def loop_ingest_effects
          loop_serial_effects a z readTemperature_def)
  have c: "currentTemp (state (loop_sensor 1000 0 booted)) = 10"
    by (simp add: loop_sensor_significant z readTemperature_def)
  have d: "currentTemp (state (loop_sensor 1090 10 (loop_sensor 1000 0 booted))) = 10"
    by (simp add: loop_sensor_def [of 1090] Let_def loop_ingest_insignificant c
          readTemperature_def)
  have f: "currentTemp (state (loop_sensor 1150 20 (loop_sensor 1090 10 (loop_sensor 1000 0 booted))))
           = 23 / 2"
    by (simp add: loop_sensor_significant d readTemperature_def)
  show ?thesis by (simp add: a b e d f) (simp add: readTemperature_def)
qed

subsection \<open>The scenario 330, 332, 345\<close>

lemma scenario_fields:
  "currentTemp (state (scenario_start c p)) = 0" "isMonitoring (state (scenario_start c p))"
  "targetTemp (settings (scenario_start c p)) = 338" "tempTolerance (settings (scenario_start c p)) = 5"
  "useCelsius (settings (scenario_start c p))" "statusMessage (state (scenario_start c p)) = []"
  "soundEnabled (settings (scenario_start c p))" "\<not> isOpen (settingsMenu (scenario_start c p))"
  by (simp_all add: scenario_start_def world_defs)

lemma loop_sensor_new_effects:
  "new_effects w (loop_sensor s n w) =
     (if n - lastSerialUpdate (state w) \<ge> UPDATE_INTERVAL_MS then [SerialReport (readTemperature s)] else [])
     @ new_effects (loop_serial (readTemperature s) n w) (loop_ingest (readTemperature s) n (loop_serial (readTemperature s) n w))"
  by (simp add: new_effects_def loop_sensor_def Let_def loop_ingest_effects loop_serial_effects)

lemma loop_ingest_new_effects:
  "new_effects w (loop_ingest t n w) =
     (if \<bar>t - currentTemp (state w)\<bar> \<ge> 1 \<or> currentTemp (state w) = 0 then
        (if isMonitoring (state w) then
           (if \<bar>t - targetTemp (settings w)\<bar> > tempTolerance (settings w) then
              (if ''Temperature Out of Range!'' \<noteq> statusMessage (state w)
                  \<or> COLOR_WARNING \<noteq> statusColor (state w)
               then [DrawStatus ''Temperature Out of Range!'' COLOR_WARNING] else [])
              @ (if soundEnabled (settings w) then [Tone 500 100] else [])
            else
              (if ''Monitoring'' \<noteq> statusMessage (state w) \<or> COLOR_SUCCESS \<noteq> statusColor (state w)
               then [DrawStatus ''Monitoring'' COLOR_SUCCESS] else []))
         else [])
        @ [CloudTemperature (t * 9 / 5 + 32)]
        @ (if isOpen (settingsMenu w) then [] else [DrawTemperature])
      else [])"
  by (rule new_effects_append) (rule loop_ingest_effects)

text \<open>
  Claim C7, as amended: from the zeroed state with Celsius, target 338, tolerance 5 and
  monitoring on, the samples 330, 332 and 345 degrees leave the warning status each time.
  330 differs from the target by 8, more than the tolerance: the status becomes
  "Temperature Out of Range!" in the warning colour and is drawn. 332 is significant too (it
  differs from 330 by 2): \<open>currentTemp\<close> becomes 332 and the cloud value is written, but the
  status line is not redrawn, its text and colour being unchanged. The same holds for 345.
\<close>

theorem scenario_status_sequence:
  "(let w0 = scenario_start c p;
        w1 = loop_sensor 33000 ta w0;
        w2 = loop_sensor 33200 tb w1;
        w3 = loop_sensor 34500 tc w2
    in currentTemp (state w1) = 330
       \<and> statusMessage (state w1) = ''Temperature Out of Range!'' \<and> statusColor (state w1) = COLOR_WARNING
       \<and> DrawStatus ''Temperature Out of Range!'' COLOR_WARNING \<in> set (new_effects w0 w1)
       \<and> currentTemp (state w2) = 332
       \<and> statusMessage (state w2) = ''Temperature Out of Range!'' \<and> statusColor (state w2) = COLOR_WARNING
       \<and> (\<forall>m k. DrawStatus m k \<notin> set (new_effects w1 w2))
       \<and> CloudTemperature (332 * 9 / 5 + 32) \<in> set (new_effects w1 w2)
       \<and> currentTemp (state w3) = 345
       \<and> statusMessage (state w3) = ''Temperature Out of Range!'' \<and> statusColor (state w3) = COLOR_WARNING
       \<and> (\<forall>m k. DrawStatus m k \<notin> set (new_effects w2 w3)))"
proof -
  define w0 where "w0 = scenario_start c p"
  define w1 where "w1 = loop_sensor 33000 ta w0"
  define w2 where "w2 = loop_sensor 33200 tb w1"
  define w3 where "w3 = loop_sensor 34500 tc w2"
  note f0 = scenario_fields [of c p, folded w0_def]
  have t1: "currentTemp (state w1) = 330"
    unfolding w1_def by (simp add: loop_sensor_significant f0 readTemperature_def)
  have s1: "statusMessage (state w1) = ''Temperature Out of Range!'' \<and> statusColor (state w1) = COLOR_WARNING"
    unfolding w1_def by (simp add: loop_sensor_status f0 readTemperature_def)
  have g1: "isMonitoring (state w1)" "targetTemp (settings w1) = 338" "tempTolerance (settings w1) = 5"
    unfolding w1_def by (simp_all add: f0)
  have e1: "DrawStatus ''Temperature Out of Range!'' COLOR_WARNING \<in> set (new_effects w0 w1)"
    unfolding w1_def by (simp add: loop_sensor_new_effects loop_ingest_new_effects f0 readTemperature_def)
  have t2: "currentTemp (state w2) = 332"
    unfolding w2_def by (simp add: loop_sensor_significant t1 readTemperature_def)
  have s2: "statusMessage (state w2) = ''Temperature Out of Range!'' \<and> statusColor (state w2) = COLOR_WARNING"
    unfolding w2_def by (simp add: loop_sensor_status t1 g1 readTemperature_def)
  have g2: "isMonitoring (state w2)" "targetTemp (settings w2) = 338" "tempTolerance (settings w2) = 5"
    unfolding w2_def by (simp_all add: g1)
  have e2: "(\<forall>m k. DrawStatus m k \<notin> set (new_effects w1 w2)) \<and> CloudTemperature (332 * 9 / 5 + 32) \<in> set (new_effects w1 w2)"
    unfolding w2_def by (simp add: loop_sensor_new_effects loop_ingest_new_effects t1 s1 g1 readTemperature_def)
  have t3: "currentTemp (state w3) = 345"
    unfolding w3_def by (simp add: loop_sensor_significant t2 readTemperature_def)
  have s3: "statusMessage (state w3) = ''Temperature Out of Range!'' \<and> statusColor (state w3) = COLOR_WARNING"
    unfolding w3_def by (simp add: loop_sensor_status t2 g2 readTemperature_def)
  have e3: "(\<forall>m k. DrawStatus m k \<notin> set (new_effects w2 w3))"
    unfolding w3_def by (simp add: loop_sensor_new_effects loop_ingest_new_effects t2 s2 g2 readTemperature_def)
  show ?thesis
    unfolding Let_def w0_def [symmetric] w1_def [symmetric] w2_def [symmetric] w3_def [symmetric]
    using t1 s1 e1 t2 s2 e2 t3 s3 e3 by blast
qed

theorem scenario_status_sequence_witness:
  "statusMessage (state (loop_sensor 33000 0 (scenario_start 65535 Map.empty))) = ''Temperature Out of Range!''
   \<and> currentTemp (state (loop_sensor 33200 10 (loop_sensor 33000 0 (scenario_start 65535 Map.empty)))) = 332
   \<and> statusColor (state (loop_sensor 34500 20 (loop_sensor 33200 10 (loop_sensor 33000 0 (scenario_start 65535 Map.empty))))) = COLOR_WARNING"
  using scenario_status_sequence [where c = 65535 and p = Map.empty and ta = 0 and tb = 10 and tc = 20] unfolding Let_def by blast

text \<open>The first status of the scenario is not the success status "Monitoring".\<close>

theorem scenario_first_status_counterexample:
  "\<not> (statusMessage (state (loop_sensor 33000 0 (scenario_start 65535 Map.empty))) = ''Monitoring''
       \<and> statusColor (state (loop_sensor 33000 0 (scenario_start 65535 Map.empty))) = COLOR_SUCCESS)"
  by (simp add: loop_sensor_status scenario_fields readTemperature_def)

section \<open>The adjustment operators of the menu\<close>

lemma crem_nonneg: "0 \<le> a \<Longrightarrow> 0 < b \<Longrightarrow> crem a b = a mod b"
  by (simp add: crem_def cdiv_def sgn_if minus_mult_div_eq_mod)

lemma adjust_brightness_mod:
  "0 \<le> b \<Longrightarrow> b \<le> 255 \<Longrightarrow> adjust_brightness b = (b + 64) mod 256"
  by (simp add: adjust_brightness_def crem_nonneg)

lemma adjust_brightness_range:
  "0 \<le> b \<Longrightarrow> b \<le> 255 \<Longrightarrow> 0 \<le> adjust_brightness b \<and> adjust_brightness b \<le> 255"
  by (simp add: adjust_brightness_mod)

lemma adjust_brightness_four:
  assumes "0 \<le> b" "b \<le> 255"
  shows "(adjust_brightness ^^ 4) b = b"
proof -
  have e: "(adjust_brightness ^^ 4) b
           = adjust_brightness (adjust_brightness (adjust_brightness (adjust_brightness b)))"
    by (simp add: numeral_eq_Suc)
  have "(adjust_brightness ^^ 4) b = (b + 256) mod 256"
    unfolding e using assms by (simp add: adjust_brightness_mod adjust_brightness_range mod_simps)
  then show ?thesis using assms by simp
qed

lemma menu_item_brightness:
  "menu_item_action 2 ins w =
     Continue (emit (SetBrightness (adjust_brightness (brightness (settings w))))
                 (w\<lparr>settings := (settings w)\<lparr>brightness := adjust_brightness (brightness (settings w))\<rparr>\<rparr>), ins)"
  by (simp add: menu_item_action_def Let_def)

text \<open>
  Claim C9: the brightness item of the menu replaces the brightness \<open>b\<close> by
  \<open>(b + 64) % 256\<close> and passes it to the display at once. From the default 128 the values
  are 128, 192, 0, 64 and 128 again; for every brightness from 0 to 255 the operator is
  \<open>(b + 64) mod 256\<close> and four applications give the value back.
\<close>

theorem brightness_cycle:
  "adjust_brightness 128 = 192 \<and> adjust_brightness 192 = 0 \<and> adjust_brightness 0 = 64
   \<and> adjust_brightness 64 = 128
   \<and> (\<forall>b. 0 \<le> b \<and> b \<le> 255 \<longrightarrow>
          adjust_brightness b = (b + 64) mod 256 \<and> (adjust_brightness ^^ 4) b = b)
   \<and> (\<forall>ins w. menu_item_action 2 ins w =
          Continue (emit (SetBrightness (adjust_brightness (brightness (settings w))))
                      (w\<lparr>settings := (settings w)\<lparr>brightness := adjust_brightness (brightness (settings w))\<rparr>\<rparr>), ins))"
proof -
  have "adjust_brightness 128 = 192 \<and> adjust_brightness 192 = 0 \<and> adjust_brightness 0 = 64
        \<and> adjust_brightness 64 = 128"
    by (simp add: adjust_brightness_def crem_def cdiv_def)
  then show ?thesis
    using adjust_brightness_mod adjust_brightness_four menu_item_brightness by blast
qed

theorem brightness_cycle_witness:
  "(0::int) \<le> 200 \<and> (200::int) \<le> 255 \<and> adjust_brightness 200 = 8 \<and> (adjust_brightness ^^ 4) 200 = 200"
proof -
  have "adjust_brightness 200 = (200 + 64) mod 256 \<and> (adjust_brightness ^^ 4) 200 = 200"
    using brightness_cycle by simp
  then show ?thesis by simp
qed

lemma adjust_targetTemp_le: "adjust_targetTemp c t \<le> MAX_TEMP_C"
  by (simp add: adjust_targetTemp_def Let_def MAX_TEMP_C_def MIN_TEMP_C_def)

lemma adjust_targetTemp_unfold:
  "adjust_targetTemp c t =
     (if t + (if c then 5 else 10) > MAX_TEMP_C then MIN_TEMP_C else t + (if c then 5 else 10))"
  by (simp add: adjust_targetTemp_def Let_def)

lemma adjust_targetTemp_steps:
  "MAX_TEMP_C - 5 * real (Suc n) < t \<Longrightarrow> t \<le> MAX_TEMP_C - 5 * real n
   \<Longrightarrow> (adjust_targetTemp True ^^ Suc n) t = MIN_TEMP_C"
proof (induction n arbitrary: t)
  case 0
  then show ?case by (simp add: adjust_targetTemp_unfold)
next
  case (Suc n)
  have a: "adjust_targetTemp True t = t + 5"
    using Suc.prems by (simp add: adjust_targetTemp_unfold)
  have "(adjust_targetTemp True ^^ Suc n) (t + 5) = MIN_TEMP_C"
    using Suc.prems by (intro Suc.IH) (simp_all add: algebra_simps)
  moreover have "(adjust_targetTemp True ^^ Suc (Suc n)) t
                 = (adjust_targetTemp True ^^ Suc n) (adjust_targetTemp True t)"
    by (simp add: funpow_swap1)
  ultimately show ?case using a by simp
qed

lemma adjust_targetTemp_reaches_min:
  assumes "t \<le> MAX_TEMP_C"
  shows "\<exists>n. (adjust_targetTemp True ^^ n) t = MIN_TEMP_C"
proof -
  define m where "m = nat \<lfloor>(MAX_TEMP_C - t) / 5\<rfloor>"
  have nn: "0 \<le> (MAX_TEMP_C - t) / 5" using assms by simp
  then have r: "real m = of_int \<lfloor>(MAX_TEMP_C - t) / 5\<rfloor>"
    by (simp add: m_def)
  have "real m \<le> (MAX_TEMP_C - t) / 5" "(MAX_TEMP_C - t) / 5 < real m + 1"
    unfolding r by linarith+
  then have "MAX_TEMP_C - 5 * real (Suc m) < t" "t \<le> MAX_TEMP_C - 5 * real m"
    by (simp_all add: field_simps)
  then have "(adjust_targetTemp True ^^ Suc m) t = MIN_TEMP_C"
    by (rule adjust_targetTemp_steps)
  then show ?thesis ..
qed

lemma adjust_targetTemp_never_above:
  "t \<le> MAX_TEMP_C \<Longrightarrow> (adjust_targetTemp c ^^ k) t \<le> MAX_TEMP_C"
  by (cases k) (simp_all add: adjust_targetTemp_le)

lemma menu_item_targetTemp:
  "menu_item_action 4 ins w =
     Continue (w\<lparr>settings := (settings w)
                 \<lparr>targetTemp := adjust_targetTemp (useCelsius (settings w)) (targetTemp (settings w))\<rparr>\<rparr>, ins)"
  by (simp add: menu_item_action_def)

text \<open>
  Claim C8: the target-temperature item adds 5 in Celsius mode and 10 otherwise, and a
  result above \<open>MAX_TEMP_C\<close> (400) is replaced by \<open>MIN_TEMP_C\<close> (-20). So the result is
  never above the maximum; within 5 below the maximum one step of 5 gives the minimum; and
  from every target up to the maximum the steps of 5 reach the minimum without ever passing
  the maximum.
\<close>

theorem targetTemp_wraps:
  "(\<forall>c t. adjust_targetTemp c t =
            (if t + (if c then 5 else 10) > MAX_TEMP_C then MIN_TEMP_C
             else t + (if c then 5 else 10))
          \<and> adjust_targetTemp c t \<le> MAX_TEMP_C)
   \<and> MAX_TEMP_C = 400 \<and> MIN_TEMP_C = - 20
   \<and> (\<forall>t. MAX_TEMP_C - 5 < t \<longrightarrow> adjust_targetTemp True t = MIN_TEMP_C)
   \<and> (\<forall>t. t \<le> MAX_TEMP_C \<longrightarrow>
          (\<exists>n. (adjust_targetTemp True ^^ n) t = MIN_TEMP_C)
          \<and> (\<forall>k. (adjust_targetTemp True ^^ k) t \<le> MAX_TEMP_C))
   \<and> (\<forall>ins w. menu_item_action 4 ins w =
          Continue (w\<lparr>settings := (settings w)
                      \<lparr>targetTemp := adjust_targetTemp (useCelsius (settings w)) (targetTemp (settings w))\<rparr>\<rparr>, ins))"
proof -
  have "\<forall>t. MAX_TEMP_C - 5 < t \<longrightarrow> adjust_targetTemp True t = MIN_TEMP_C"
    by (simp add: adjust_targetTemp_unfold)
  moreover have "MAX_TEMP_C = 400 \<and> MIN_TEMP_C = - 20"
    by (simp add: MAX_TEMP_C_def MIN_TEMP_C_def)
  ultimately show ?thesis
    using adjust_targetTemp_unfold adjust_targetTemp_le adjust_targetTemp_reaches_min
      adjust_targetTemp_never_above menu_item_targetTemp by blast
qed

theorem targetTemp_wraps_witness:
  "MAX_TEMP_C - 5 < 399 \<and> adjust_targetTemp True 399 = MIN_TEMP_C
   \<and> 380 \<le> MAX_TEMP_C \<and> (\<exists>n. (adjust_targetTemp True ^^ n) 380 = MIN_TEMP_C)"
proof -
  have h: "MAX_TEMP_C - 5 < 399" "380 \<le> MAX_TEMP_C" by (simp_all add: MAX_TEMP_C_def)
  show ?thesis using targetTemp_wraps h by blast
qed

section \<open>Properties of the emissivity dialogue\<close>

lemma same_program_state_refl [simp]: "same_program_state w w"
  by (simp add: same_program_state_def)

lemma same_program_state_trans:
  "same_program_state w w1 \<Longrightarrow> same_program_state w1 w2 \<Longrightarrow> same_program_state w w2"
  by (simp add: same_program_state_def)

lemma same_program_state_calls [simp]:
  "same_program_state w (emit e w)" "same_program_state w (playSound b w)"
  "same_program_state w (drawTemperature w)" "same_program_state w (updateDisplay w)"
  by (simp_all add: same_program_state_def updateDisplay_def)

lemma same_program_state_step:
  "same_program_state w w1 \<Longrightarrow> same_program_state w (emit e w1)"
  "same_program_state w w1 \<Longrightarrow> same_program_state w (playSound b w1)"
  "same_program_state w w1 \<Longrightarrow> same_program_state w (drawTemperature w1)"
  "same_program_state w w1 \<Longrightarrow> same_program_state w (updateDisplay w1)"
  by (simp_all add: same_program_state_def updateDisplay_def)

lemma shown_in_range_refl [simp]: "shown_in_range w w"
  by (simp add: shown_in_range_def)

lemma shown_in_range_trans:
  "shown_in_range w w1 \<Longrightarrow> shown_in_range w1 w2 \<Longrightarrow> shown_in_range w w2"
  by (auto simp: shown_in_range_def)

lemma shown_in_range_emit:
  "(\<And>v. e = DrawEmissivityValue v \<Longrightarrow> in_emissivity_range v) \<Longrightarrow> shown_in_range w (emit e w)"
  by (auto simp: shown_in_range_def split: effect.splits)

lemma shown_in_range_calls [simp]:
  "shown_in_range w (playSound b w)" "shown_in_range w (drawTemperature w)"
  "shown_in_range w (updateDisplay w)"
  "shown_in_range w (emit DrawEmissivityDialog w)" "shown_in_range w (emit DrawConfirmDialog w)"
  by (auto simp: shown_in_range_def playSound_effects drawTemperature_effects updateDisplay_def)

lemma shown_in_range_step:
  "shown_in_range w w1 \<Longrightarrow> shown_in_range w (playSound b w1)"
  "shown_in_range w w1 \<Longrightarrow> shown_in_range w (drawTemperature w1)"
  "shown_in_range w w1 \<Longrightarrow> shown_in_range w (updateDisplay w1)"
  "shown_in_range w w1 \<Longrightarrow> shown_in_range w (emit DrawEmissivityDialog w1)"
  "shown_in_range w w1 \<Longrightarrow> shown_in_range w (emit DrawConfirmDialog w1)"
  by (erule shown_in_range_trans, simp)+


lemma initial_tempEmissivity_range: "in_emissivity_range (initial_tempEmissivity e)"
  by (simp add: in_emissivity_range_def initial_tempEmissivity_def Let_def EMISSIVITY_MIN_def EMISSIVITY_MAX_def)

lemma emissivity_up_range: "in_emissivity_range t \<Longrightarrow> in_emissivity_range (emissivity_up t)"
  by (simp add: in_emissivity_range_def emissivity_up_def Let_def EMISSIVITY_MIN_def EMISSIVITY_MAX_def EMISSIVITY_STEP_def)

lemma emissivity_down_range: "in_emissivity_range t \<Longrightarrow> in_emissivity_range (emissivity_down t)"
  by (simp add: in_emissivity_range_def emissivity_down_def Let_def EMISSIVITY_MIN_def EMISSIVITY_MAX_def EMISSIVITY_STEP_def)

lemma show_staged_result:
  "in_emissivity_range t \<Longrightarrow>
   same_program_state w (show_staged t l w) \<and> shown_in_range w (show_staged t l w)"
  by (auto simp: show_staged_def intro: shown_in_range_emit)

lemma adjusting_loop_result:
  "adjusting_loop orig t c l ins w = Some (t', c', w', ins') \<Longrightarrow> in_emissivity_range t \<Longrightarrow>
     same_program_state w w' \<and> shown_in_range w w' \<and> in_emissivity_range t'
     \<and> ((c \<longrightarrow> t \<noteq> orig) \<longrightarrow> c' \<longrightarrow> t' \<noteq> orig)
     \<and> suffix ins' ins"
proof (induction orig t c l ins w rule: adjusting_loop.induct)
  case (1 orig t c l w)
  then show ?case by simp
next
  case (2 orig t c l x xs w)
  let ?w0 = "show_staged t l w"
  have d: "same_program_state w ?w0" "shown_in_range w ?w0"
    using show_staged_result [OF "2.prems"(2)] by simp_all
  have d': "same_program_state w (playSound True ?w0)" "shown_in_range w (playSound True ?w0)"
    using d by (auto intro: same_program_state_step shown_in_range_trans)
  have comb: "\<And>w1. same_program_state w w1 \<Longrightarrow> shown_in_range w w1 \<Longrightarrow>
      same_program_state w1 w' \<and> shown_in_range w1 w' \<and> in_emissivity_range t'
        \<and> ((c \<longrightarrow> t \<noteq> orig) \<longrightarrow> c' \<longrightarrow> t' \<noteq> orig) \<and> suffix ins' xs
      \<Longrightarrow> same_program_state w w' \<and> shown_in_range w w' \<and> in_emissivity_range t'
        \<and> ((c \<longrightarrow> t \<noteq> orig) \<longrightarrow> c' \<longrightarrow> t' \<noteq> orig) \<and> suffix ins' (x # xs)"
    by (blast intro: same_program_state_trans shown_in_range_trans suffix_ConsI)
  note rng = "2.prems"(2)
  show ?case
  proof (cases "touch_count x \<noteq> 0 \<and> wasPressed x")
    case False
    with "2.prems"(1) have r: "adjusting_loop orig t c t xs ?w0 = Some (t', c', w', ins')" by auto
    show ?thesis by (rule comb [OF d]) (rule "2.IH"(6) [OF False r rng])
  next
    case pressed: True
    show ?thesis
    proof (cases "contains upBtn (touch_x x) (touch_y x)")
      case up: True
      show ?thesis
      proof (cases "t < EMISSIVITY_MAX")
        case True
        with pressed up "2.prems"(1)
        have r: "adjusting_loop orig (emissivity_up t) (emissivity_up t \<noteq> orig) t xs (playSound True ?w0)
                 = Some (t', c', w', ins')" by auto
        show ?thesis
          by (rule comb [OF d'])
             (use "2.IH"(1) [OF pressed up True r emissivity_up_range [OF rng]] in blast)
      next
        case False
        with pressed up "2.prems"(1)
        have r: "adjusting_loop orig t c t xs ?w0 = Some (t', c', w', ins')" by auto
        show ?thesis by (rule comb [OF d]) (rule "2.IH"(2) [OF pressed up False r rng])
      qed
    next
      case notup: False
      show ?thesis
      proof (cases "contains downBtn (touch_x x) (touch_y x)")
        case down: True
        show ?thesis
        proof (cases "t > EMISSIVITY_MIN")
          case True
          with pressed notup down "2.prems"(1)
          have r: "adjusting_loop orig (emissivity_down t) (emissivity_down t \<noteq> orig) t xs (playSound True ?w0)
                   = Some (t', c', w', ins')" by auto
          show ?thesis
            by (rule comb [OF d'])
               (use "2.IH"(3) [OF pressed notup down True r emissivity_down_range [OF rng]] in blast)
        next
          case False
          with pressed notup down "2.prems"(1)
          have r: "adjusting_loop orig t c t xs ?w0 = Some (t', c', w', ins')" by auto
          show ?thesis by (rule comb [OF d]) (rule "2.IH"(4) [OF pressed notup down False r rng])
        qed
      next
        case notdown: False
        show ?thesis
        proof (cases "contains doneBtn (touch_x x) (touch_y x)")
          case True
          with pressed notup notdown "2.prems" d' show ?thesis by (auto intro: suffix_ConsI)
        next
          case False
          with pressed notup notdown "2.prems"(1)
          have r: "adjusting_loop orig t c t xs ?w0 = Some (t', c', w', ins')" by auto
          show ?thesis
            by (rule comb [OF d]) (rule "2.IH"(5) [OF pressed notup notdown False r rng])
        qed
      qed
    qed
  qed
qed

lemma waiting_loop_continue:
  "waiting_loop t ins w = Continue (w', ins') \<Longrightarrow>
     same_program_state w w' \<and> shown_in_range w w' \<and> suffix ins' ins"
proof (induction t ins w rule: waiting_loop.induct)
  case (1 t w)
  then show ?case by simp
next
  case (2 t x xs w)
  then show ?case
    by (auto simp: Let_def split: if_splits intro: suffix_ConsI)
qed

lemma waiting_loop_restarted:
  "waiting_loop t ins w = Restarted w' \<Longrightarrow>
     settings w' = (settings w)\<lparr>emissivity := t\<rparr>
     \<and> preferences w' = Settings_save (settings w') (preferences w)
     \<and> state w' = state w \<and> settingsMenu w' = settingsMenu w
     \<and> lastPressedButton w' = lastPressedButton w \<and> touchProcessed w' = touchProcessed w
     \<and> shown_in_range w w'"
proof (induction t ins w rule: waiting_loop.induct)
  case (1 t w)
  then show ?case by simp
next
  case (2 t x xs w)
  have e: "shown_in_range w
             (playSound True (emit (SensorSetEmissivity t) (save (w\<lparr>settings := (settings w)\<lparr>emissivity := t\<rparr>\<rparr>))))"
    by (simp add: shown_in_range_def playSound_effects save_def)
  from 2 e show ?case
    by (auto simp: Let_def save_def split: if_splits)
qed

lemma waiting_loop_no_panic: "waiting_loop t ins w \<noteq> Panic"
  by (induction t ins w rule: waiting_loop.induct) (auto simp: Let_def)

lemma adjustEmissivity_continue:
  assumes "adjustEmissivity ins w = Continue (w', ins')"
  shows "same_program_state w w' \<and> shown_in_range w w' \<and> suffix ins' ins"
proof -
  let ?w0 = "emit DrawEmissivityDialog w"
  have w0: "same_program_state w ?w0" "shown_in_range w ?w0"
    by simp_all
  from assms obtain t c w1 ins1 where
    a: "adjusting_loop (emissivity (settings w)) (initial_tempEmissivity (emissivity (settings w)))
          False (- 1) ins ?w0 = Some (t, c, w1, ins1)"
    by (auto simp: adjustEmissivity_def Let_def split: option.splits)
  have s1: "same_program_state w w1" "shown_in_range w w1" and l1: "suffix ins1 ins"
    using adjusting_loop_result [OF a initial_tempEmissivity_range]
      same_program_state_trans [OF w0(1)] shown_in_range_trans [OF w0(2)] by blast+
  show ?thesis
  proof (cases c)
    case False
    with assms a have "w' = updateDisplay (drawTemperature w1)" "ins' = ins1"
      by (auto simp: adjustEmissivity_def Let_def obind_def)
    with s1 l1 show ?thesis
      by (auto intro!: same_program_state_step shown_in_range_step)
  next
    case True
    let ?w1 = "emit DrawConfirmDialog w1"
    have w1: "same_program_state w ?w1" "shown_in_range w ?w1"
      using s1 same_program_state_step(1) shown_in_range_step(5)
      by blast+
    from True assms a obtain w2 where
      b: "waiting_loop t ins1 ?w1 = Continue (w2, ins')"
      and w': "w' = updateDisplay (drawTemperature w2)"
      by (auto simp: adjustEmissivity_def Let_def obind_def split: outcome.splits)
    have "same_program_state w w2" "shown_in_range w w2" "suffix ins' ins1"
      using waiting_loop_continue [OF b] same_program_state_trans [OF w1(1)]
        shown_in_range_trans [OF w1(2)] by blast+
    with l1 w' show ?thesis
      by (auto intro!: same_program_state_step shown_in_range_step intro: suffix_order.trans)
  qed
qed

lemma adjustEmissivity_restarted:
  assumes "adjustEmissivity ins w = Restarted w'"
  shows "in_emissivity_range (emissivity (settings w'))
     \<and> emissivity (settings w') \<noteq> emissivity (settings w)
     \<and> settings w' = (settings w)\<lparr>emissivity := emissivity (settings w')\<rparr>
     \<and> preferences w' = Settings_save (settings w') (preferences w)
     \<and> state w' = state w \<and> settingsMenu w' = settingsMenu w
     \<and> lastPressedButton w' = lastPressedButton w \<and> touchProcessed w' = touchProcessed w
     \<and> shown_in_range w w'"
proof -
  let ?w0 = "emit DrawEmissivityDialog w"
  have w0: "same_program_state w ?w0" "shown_in_range w ?w0"
    by simp_all
  from assms obtain t c w1 ins1 where
    a: "adjusting_loop (emissivity (settings w)) (initial_tempEmissivity (emissivity (settings w)))
          False (- 1) ins ?w0 = Some (t, c, w1, ins1)"
    by (auto simp: adjustEmissivity_def Let_def split: option.splits)
  have s1: "same_program_state w w1" "shown_in_range w w1" and r: "in_emissivity_range t"
    and ch: "c \<longrightarrow> t \<noteq> emissivity (settings w)"
    using adjusting_loop_result [OF a initial_tempEmissivity_range]
      same_program_state_trans [OF w0(1)] shown_in_range_trans [OF w0(2)] by blast+
  let ?w1 = "emit DrawConfirmDialog w1"
  have w1: "same_program_state w ?w1" "shown_in_range w ?w1"
    using s1 same_program_state_step(1) shown_in_range_step(5)
    by blast+
  from assms a have c: c and b: "waiting_loop t ins1 ?w1 = Restarted w'"
    by (auto simp: adjustEmissivity_def Let_def obind_def split: outcome.splits if_splits)
  have "shown_in_range w w'"
    using waiting_loop_restarted [OF b] shown_in_range_trans [OF w1(2)] by blast
  with waiting_loop_restarted [OF b] w1(1) r ch c show ?thesis
    by (auto simp: same_program_state_def)
qed

lemma adjustEmissivity_no_panic: "adjustEmissivity ins w \<noteq> Panic"
  using waiting_loop_no_panic
  by (auto simp: adjustEmissivity_def Let_def obind_def split: option.splits outcome.splits)

lemma menu_item_action_continue:
  assumes "menu_item_action i ins w = Continue (w', ins')"
  shows "state w' = state w \<and> settingsMenu w' = settingsMenu w \<and> preferences w' = preferences w
     \<and> lastPressedButton w' = lastPressedButton w \<and> touchProcessed w' = touchProcessed w
     \<and> emissivity (settings w') = emissivity (settings w) \<and> suffix ins' ins"
proof (cases "i = 3")
  case True
  with assms have "adjustEmissivity ins w = Continue (w', ins')"
    by (simp add: menu_item_action_def)
  from adjustEmissivity_continue [OF this] show ?thesis
    by (simp add: same_program_state_def)
next
  case False
  with assms show ?thesis
    by (auto simp: menu_item_action_def Let_def split: if_splits)
qed

lemma menu_item_action_restarted:
  "menu_item_action i ins w = Restarted w' \<Longrightarrow> i = 3 \<and> adjustEmissivity ins w = Restarted w'"
  by (auto simp: menu_item_action_def Let_def split: if_splits)

lemma menu_item_action_no_panic: "menu_item_action i ins w \<noteq> Panic"
  using adjustEmissivity_no_panic by (auto simp: menu_item_action_def Let_def)

lemma getFloat_saved [simp]:
  "getFloat (Settings_save s p) ''emissivity'' d = emissivity s"
  "Settings_save s p ''emissivity'' = Some (PFloat (emissivity s))"
  by (simp_all add: getFloat_def Settings_save_def)

lemma save_frame [simp]:
  "settings (save w) = settings w" "state (save w) = state w"
  "settingsMenu (save w) = settingsMenu w"
  "preferences (save w) = Settings_save (settings w) (preferences w)"
  "lastPressedButton (save w) = lastPressedButton w" "touchProcessed (save w) = touchProcessed w"
  "effects (save w) = effects w"
  by (simp_all add: save_def)

lemma updateDisplay_frame [simp]:
  "settings (updateDisplay w) = settings w" "state (updateDisplay w) = state w"
  "settingsMenu (updateDisplay w) = settingsMenu w" "preferences (updateDisplay w) = preferences w"
  "lastPressedButton (updateDisplay w) = lastPressedButton w"
  "touchProcessed (updateDisplay w) = touchProcessed w"
  "effects (updateDisplay w) = effects w @ [UpdateDisplay]"
  by (simp_all add: updateDisplay_def)

text \<open>What \<open>handleSettingsTouch\<close> does after the \<open>switch\<close>: save, cue, redraw.\<close>

lemma handleSettingsTouch_continue:
  assumes "handleSettingsTouch d tx ty ins w = Continue (w', ins')"
  shows "state w' = state w
     \<and> lastPressedButton w' = lastPressedButton w \<and> touchProcessed w' = touchProcessed w
     \<and> (ty \<le> display_height d - FOOTER_HEIGHT \<longrightarrow>
          isOpen (settingsMenu w') = isOpen (settingsMenu w))
     \<and> emissivity (settings w') = emissivity (settings w)
     \<and> (getFloat (preferences w) ''emissivity'' DEFAULT_EMISSIVITY = emissivity (settings w) \<longrightarrow>
          getFloat (preferences w') ''emissivity'' DEFAULT_EMISSIVITY = emissivity (settings w))
     \<and> suffix ins' ins"
proof -
  define sel where "sel i = w\<lparr>settingsMenu := (settingsMenu w)\<lparr>selectedItem := i\<rparr>\<rparr>" for i
  have sel: "state (sel i) = state w" "preferences (sel i) = preferences w"
    "lastPressedButton (sel i) = lastPressedButton w" "touchProcessed (sel i) = touchProcessed w"
    "settings (sel i) = settings w" "isOpen (settingsMenu (sel i)) = isOpen (settingsMenu w)" for i
    by (simp_all add: sel_def)
  have item: "state w1 = state w \<and> lastPressedButton w1 = lastPressedButton w
      \<and> touchProcessed w1 = touchProcessed w \<and> isOpen (settingsMenu w1) = isOpen (settingsMenu w)
      \<and> preferences w1 = preferences w
      \<and> emissivity (settings w1) = emissivity (settings w) \<and> suffix ins1 ins"
    if "menu_item_action i ins (sel i) = Continue (w1, ins1)" for i w1 ins1
    using menu_item_action_continue [OF that] by (simp add: sel)
  from assms show ?thesis
    unfolding handleSettingsTouch_def Let_def obind_def sel_def [symmetric]
    by (auto split: if_splits outcome.splits dest!: item)
qed

lemma handleSettingsTouch_restarted:
  assumes "handleSettingsTouch d tx ty ins w = Restarted w'"
  shows "state w' = state w \<and> isOpen (settingsMenu w') = isOpen (settingsMenu w)
     \<and> lastPressedButton w' = lastPressedButton w \<and> touchProcessed w' = touchProcessed w
     \<and> in_emissivity_range (emissivity (settings w'))
     \<and> emissivity (settings w') \<noteq> emissivity (settings w)
     \<and> preferences w' ''emissivity'' = Some (PFloat (emissivity (settings w')))"
proof -
  define sel where "sel i = w\<lparr>settingsMenu := (settingsMenu w)\<lparr>selectedItem := i\<rparr>\<rparr>" for i
  have sel: "state (sel i) = state w" "preferences (sel i) = preferences w"
    "lastPressedButton (sel i) = lastPressedButton w" "touchProcessed (sel i) = touchProcessed w"
    "settings (sel i) = settings w" "isOpen (settingsMenu (sel i)) = isOpen (settingsMenu w)" for i
    by (simp_all add: sel_def)
  have item: "state w1 = state w \<and> isOpen (settingsMenu w1) = isOpen (settingsMenu w)
     \<and> lastPressedButton w1 = lastPressedButton w \<and> touchProcessed w1 = touchProcessed w
     \<and> in_emissivity_range (emissivity (settings w1))
     \<and> emissivity (settings w1) \<noteq> emissivity (settings w)
     \<and> preferences w1 ''emissivity'' = Some (PFloat (emissivity (settings w1)))"
    if "menu_item_action i ins (sel i) = Restarted w1" for i w1
    using adjustEmissivity_restarted [OF menu_item_action_restarted [OF that, THEN conjunct2]]
    by (simp add: sel)
  from assms show ?thesis
    unfolding handleSettingsTouch_def Let_def obind_def sel_def [symmetric]
    by (auto split: if_splits outcome.splits dest!: item)
qed

lemmas touch_defs = press_at_def release_at_def no_touch_def cores3_def
lemmas dialog_defs = adjustEmissivity_def Let_def obind_def initial_tempEmissivity_def
  emissivity_up_def emissivity_down_def show_staged_def contains_def new_Button_def
  upBtn_def downBtn_def doneBtn_def confirmBtn_def cancelBtn_def
  EMISSIVITY_MIN_def EMISSIVITY_MAX_def EMISSIVITY_STEP_def DEFAULT_EMISSIVITY_def

lemma booted_settings: "settings booted = default_Settings" "preferences booted = Map.empty"
  by (simp_all add: booted_def default_World_def)

text \<open>Plus, Done, Cancel on the device as booted.\<close>

lemma dialog_cancel_run:
  "\<exists>w'. adjustEmissivity [press_at 250 90, press_at 50 200, press_at 200 200] booted = Continue (w', [])"
  by (simp add: dialog_defs touch_defs booted_def world_defs)

lemma dialog_done_run:
  "\<exists>w'. adjustEmissivity [press_at 50 200] booted = Continue (w', [])"
  by (simp add: dialog_defs touch_defs booted_def world_defs)



text \<open>
  Claim C3: the dialogue writes the staged emissivity to \<open>Settings.emissivity\<close> and to the
  store only where it restarts the device after the confirmation. Whenever it returns
  (Cancel, or Done with \<open>valueChanged\<close> false) the settings and the store are exactly those
  on entry. The menu saves the settings after the dialogue has returned; this writes the
  emissivity the settings had on entry, so a store that agreed with the settings reads back
  the same emissivity as before.
\<close>

theorem emissivity_written_only_on_restart:
  "(\<forall>ins w w' ins'. adjustEmissivity ins w = Continue (w', ins') \<longrightarrow>
       settings w' = settings w \<and> preferences w' = preferences w)
   \<and> (\<forall>ins w w'. adjustEmissivity ins w = Restarted w' \<longrightarrow>
       settings w' = (settings w)\<lparr>emissivity := emissivity (settings w')\<rparr>
       \<and> emissivity (settings w') \<noteq> emissivity (settings w)
       \<and> preferences w' = Settings_save (settings w') (preferences w))
   \<and> (\<forall>d tx ty ins w w' ins'. handleSettingsTouch d tx ty ins w = Continue (w', ins') \<longrightarrow>
       emissivity (settings w') = emissivity (settings w)
       \<and> (getFloat (preferences w) ''emissivity'' DEFAULT_EMISSIVITY = emissivity (settings w) \<longrightarrow>
            getFloat (preferences w') ''emissivity'' DEFAULT_EMISSIVITY = emissivity (settings w)))"
proof (intro conjI allI impI)
  fix ins w w' ins'
  assume "adjustEmissivity ins w = Continue (w', ins')"
  from adjustEmissivity_continue [OF this]
  show "settings w' = settings w" "preferences w' = preferences w"
    by (simp_all add: same_program_state_def)
next
  fix ins w w'
  assume "adjustEmissivity ins w = Restarted w'"
  from adjustEmissivity_restarted [OF this]
  show "settings w' = (settings w)\<lparr>emissivity := emissivity (settings w')\<rparr>"
    "emissivity (settings w') \<noteq> emissivity (settings w)"
    "preferences w' = Settings_save (settings w') (preferences w)"
    by simp_all
next
  fix d tx ty ins w w' ins'
  assume h: "handleSettingsTouch d tx ty ins w = Continue (w', ins')"
  from handleSettingsTouch_continue [OF h]
  show "emissivity (settings w') = emissivity (settings w)" by simp
  assume "getFloat (preferences w) ''emissivity'' DEFAULT_EMISSIVITY = emissivity (settings w)"
  with handleSettingsTouch_continue [OF h]
  show "getFloat (preferences w') ''emissivity'' DEFAULT_EMISSIVITY = emissivity (settings w)"
    by simp
qed

theorem emissivity_written_only_on_restart_witness:
  "map_option (settings \<circ> fst)
       (returned (adjustEmissivity [press_at 250 90, press_at 50 200, press_at 200 200] booted))
     = Some default_Settings
   \<and> map_option (preferences \<circ> fst)
       (returned (adjustEmissivity [press_at 250 90, press_at 50 200, press_at 200 200] booted))
     = Some Map.empty
   \<and> map_option (settings \<circ> fst) (returned (adjustEmissivity [press_at 50 200] booted))
     = Some default_Settings"
proof -
  obtain w1 where
    r1: "adjustEmissivity [press_at 250 90, press_at 50 200, press_at 200 200] booted = Continue (w1, [])"
    using dialog_cancel_run by blast
  obtain w2 where r2: "adjustEmissivity [press_at 50 200] booted = Continue (w2, [])"
    using dialog_done_run by blast
  from emissivity_written_only_on_restart r1 r2
  have "settings w1 = settings booted \<and> preferences w1 = preferences booted
        \<and> settings w2 = settings booted"
    by blast
  then show ?thesis by (simp add: r1 r2 returned_def booted_settings)
qed



section \<open>Properties of the touch dispatcher\<close>

lemma setPressed_result:
  "setPressed p b w = (b', w') \<Longrightarrow>
     same_program_state w w' \<and> b' = b\<lparr>pressed := p\<rparr>
     \<and> effects w' = effects w @
          (if pressed b \<noteq> p
           then (if p \<and> soundEnabled (settings w) then [Tone 1000 50] else [])
                @ [DrawButton (label b) p]
           else [])"
  by (auto simp: setPressed_def Let_def playSound_effects same_program_state_def split: if_splits)

lemma release_action_frame [simp]:
  "settings (release_action b w) = settings w"
  "preferences (release_action b w) = preferences w"
  "lastPressedButton (release_action b w) = lastPressedButton w"
  "touchProcessed (release_action b w) = touchProcessed w"
  by (simp_all add: release_action_def Let_def)

text \<open>A tick without contact.\<close>

lemma handleTouch_no_contact:
  assumes "touch_count t = 0"
  shows "\<exists>w'. handleTouch d t ins w = Continue (w', ins)
     \<and> lastPressedButton w' = None \<and> \<not> touchProcessed w'
     \<and> settings w' = settings w \<and> state w' = state w \<and> settingsMenu w' = settingsMenu w
     \<and> preferences w' = preferences w"
proof (cases "lastPressedButton w")
  case None
  with assms show ?thesis by (simp add: handleTouch_def Let_def)
next
  case (Some b)
  obtain b' w2 where sp: "setPressed False b (w\<lparr>touchProcessed := False\<rparr>) = (b', w2)"
    by (cases "setPressed False b (w\<lparr>touchProcessed := False\<rparr>)")
  from setPressed_result [OF sp] assms Some sp show ?thesis
    by (simp add: handleTouch_def Let_def same_program_state_def)
qed

text \<open>A release while a button is armed.\<close>

lemma handleTouch_release:
  assumes "touch_count t \<noteq> 0" "wasReleased t" "touchProcessed w" "lastPressedButton w = Some b"
  shows "\<exists>bw. setPressed False b
                (if contains b (touch_x t) (touch_y t)
                 then release_action b (w\<lparr>touchProcessed := False\<rparr>)
                 else w\<lparr>touchProcessed := False\<rparr>) = bw
     \<and> handleTouch d t ins w = Continue (updateDisplay ((snd bw)\<lparr>lastPressedButton := None\<rparr>), ins)"
  using assms by (simp add: handleTouch_def Let_def case_prod_beta)

lemma handleTouch_release_outside:
  assumes "touch_count t \<noteq> 0" "wasReleased t" "touchProcessed w" "lastPressedButton w = Some b"
    and "\<not> contains b (touch_x t) (touch_y t)"
  shows "\<exists>w'. handleTouch d t ins w = Continue (w', ins)
     \<and> lastPressedButton w' = None \<and> \<not> touchProcessed w'
     \<and> settings w' = settings w \<and> state w' = state w \<and> settingsMenu w' = settingsMenu w
     \<and> preferences w' = preferences w
     \<and> new_effects w w' = (if pressed b then [DrawButton (label b) False] else []) @ [UpdateDisplay]"
proof -
  obtain b' w2 where sp: "setPressed False b (w\<lparr>touchProcessed := False\<rparr>) = (b', w2)"
    by (cases "setPressed False b (w\<lparr>touchProcessed := False\<rparr>)")
  from handleTouch_release [OF assms(1-4), of d ins] assms(5) sp
  have "handleTouch d t ins w = Continue (updateDisplay (w2\<lparr>lastPressedButton := None\<rparr>), ins)"
    by simp
  with setPressed_result [OF sp] show ?thesis
    by (simp add: same_program_state_def new_effects_def)
qed

text \<open>Any sample that is not taken as a new press leaves settings and store alone.\<close>

lemma handleTouch_not_press:
  assumes "\<not> (touch_count t \<noteq> 0 \<and> wasPressed t \<and> \<not> touchProcessed w)"
  shows "\<exists>w'. handleTouch d t ins w = Continue (w', ins)
     \<and> settings w' = settings w \<and> preferences w' = preferences w
     \<and> ((isMonitoring (state w') \<noteq> isMonitoring (state w)
          \<or> isOpen (settingsMenu w') \<noteq> isOpen (settingsMenu w)
          \<or> currentScreen (state w') \<noteq> currentScreen (state w)) \<longrightarrow>
         touch_count t \<noteq> 0 \<and> wasReleased t
         \<and> (\<exists>b. lastPressedButton w = Some b \<and> contains b (touch_x t) (touch_y t)))"
proof (cases "touch_count t = 0")
  case True
  from handleTouch_no_contact [OF True, of d ins w] show ?thesis by auto
next
  case contact: False
  show ?thesis
  proof (cases "wasReleased t \<and> lastPressedButton w \<noteq> None \<and> touchProcessed w")
    case False
    with contact assms have "handleTouch d t ins w = Continue (w, ins)"
      by (auto simp: handleTouch_def Let_def)
    then show ?thesis by simp
  next
    case True
    then obtain b where b: "lastPressedButton w = Some b" by auto
    define w2 where "w2 = (if contains b (touch_x t) (touch_y t)
                 then release_action b (w\<lparr>touchProcessed := False\<rparr>)
                 else w\<lparr>touchProcessed := False\<rparr>)"
    obtain b' w3 where sp: "setPressed False b w2 = (b', w3)"
      by (cases "setPressed False b w2")
    from handleTouch_release [OF contact _ _ b, of d ins] True sp
    have h: "handleTouch d t ins w = Continue (updateDisplay (w3\<lparr>lastPressedButton := None\<rparr>), ins)"
      by (simp add: w2_def)
    have w2: "settings w2 = settings w" "preferences w2 = preferences w"
      "\<not> contains b (touch_x t) (touch_y t) \<Longrightarrow> state w2 = state w \<and> settingsMenu w2 = settingsMenu w"
      by (simp_all add: w2_def)
    have w3: "settings w3 = settings w2" "preferences w3 = preferences w2" "state w3 = state w2"
      "settingsMenu w3 = settingsMenu w2"
      using setPressed_result [OF sp] by (simp_all add: same_program_state_def)
    show ?thesis
    proof (cases "contains b (touch_x t) (touch_y t)")
      case True
      with h w2(1,2) w3 contact \<open>wasReleased t \<and> _\<close> b show ?thesis by simp
    next
      case False
      with h w2 w3 show ?thesis by simp
    qed
  qed
qed

text \<open>A new press: the footer buttons are armed, a touch of the open menu is handled at once.\<close>

lemma handleTouch_press_continue:
  assumes "touch_count t \<noteq> 0" "wasPressed t" "\<not> touchProcessed w"
    and "handleTouch d t ins w = Continue (w', ins')"
  shows "state w' = state w \<and> isOpen (settingsMenu w') = isOpen (settingsMenu w)
     \<and> touchProcessed w' \<and> suffix ins' ins
     \<and> (settings w' \<noteq> settings w \<or> preferences w' \<noteq> preferences w \<longrightarrow>
          isOpen (settingsMenu w) \<and> touch_y t < display_height d - FOOTER_HEIGHT)"
proof (cases "touch_y t \<ge> display_height d - FOOTER_HEIGHT")
  case footer: True
  have sp: "state w2 = state w \<and> settings w2 = settings w \<and> settingsMenu w2 = settingsMenu w
      \<and> preferences w2 = preferences w \<and> touchProcessed w2"
    if "setPressed True b (w\<lparr>touchProcessed := True\<rparr>) = (b', w2)" for b b' w2
    using setPressed_result [OF that] by (simp add: same_program_state_def)
  from assms footer show ?thesis
    unfolding handleTouch_def Let_def
    by (auto split: if_splits prod.splits dest!: sp)
next
  case False
  show ?thesis
  proof (cases "isOpen (settingsMenu w)")
    case True
    with assms False
    have h: "handleSettingsTouch d (touch_x t) (touch_y t) ins (w\<lparr>touchProcessed := True\<rparr>)
             = Continue (w', ins')"
      by (simp add: handleTouch_def Let_def)
    from handleSettingsTouch_continue [OF h] False True show ?thesis by simp
  next
    case closed: False
    with assms False have "w' = w\<lparr>touchProcessed := True\<rparr>" "ins' = ins"
      by (simp_all add: handleTouch_def Let_def)
    then show ?thesis by simp
  qed
qed

lemma handleTouch_restarted:
  assumes "handleTouch d t ins w = Restarted w'"
  shows "touch_count t \<noteq> 0 \<and> wasPressed t \<and> \<not> touchProcessed w \<and> isOpen (settingsMenu w)
     \<and> state w' = state w \<and> isOpen (settingsMenu w') = isOpen (settingsMenu w)
     \<and> in_emissivity_range (emissivity (settings w'))
     \<and> emissivity (settings w') \<noteq> emissivity (settings w)
     \<and> preferences w' ''emissivity'' = Some (PFloat (emissivity (settings w')))"
proof -
  have p: "touch_count t \<noteq> 0 \<and> wasPressed t \<and> \<not> touchProcessed w"
  proof (rule ccontr)
    assume n: "\<not> (touch_count t \<noteq> 0 \<and> wasPressed t \<and> \<not> touchProcessed w)"
    from handleTouch_not_press [OF n, of d ins] assms show False by auto
  qed
  from assms p have "isOpen (settingsMenu w)
      \<and> handleSettingsTouch d (touch_x t) (touch_y t) ins (w\<lparr>touchProcessed := True\<rparr>) = Restarted w'"
    unfolding handleTouch_def Let_def
    by (auto split: if_splits prod.splits)
  with handleSettingsTouch_restarted
         [of d "touch_x t" "touch_y t" ins "w\<lparr>touchProcessed := True\<rparr>" w'] p
  show ?thesis by simp
qed

lemma handleTouch_suffix:
  "handleTouch d t ins w = Continue (w', ins') \<Longrightarrow> suffix ins' ins"
  using handleTouch_not_press [of t w d ins] handleTouch_press_continue [of t w d ins w' ins']
  by auto

lemma suffix_drop_length: "suffix ys xs \<Longrightarrow> drop (length xs - length ys) xs = ys"
  by (auto simp: suffix_def)

lemma run_touch_Cons:
  "run_touch d (t # ts) w =
     (case handleTouch d t ts w of
        Continue (w', ts') \<Rightarrow> run_touch d ts' w'
      | Restarted w' \<Rightarrow> Restarted w'
      | Blocked \<Rightarrow> Blocked
      | Panic \<Rightarrow> Panic)"
  by (auto simp: suffix_drop_length split: outcome.splits dest!: handleTouch_suffix)

declare run_touch.simps(2) [simp del]

lemmas handleTouch_eval_defs = handleTouch_def Let_def setPressed_def new_Button_def contains_def
  cdiv_def playSound_def emit_def release_action_def updateDisplay_def
  HEADER_HEIGHT_def FOOTER_HEIGHT_def MARGIN_def BUTTON_HEIGHT_def numItems_def


text \<open>
  Presses on the 320 by 240 screen, in any world that is not in the middle of a touch:
  (50, 220) is on the Monitor button, (250, 220) on the Settings or Back button, (100, 50) on
  the first item of the menu.
\<close>

lemma monitor_press:
  "\<not> touchProcessed w \<Longrightarrow> \<not> isOpen (settingsMenu w) \<Longrightarrow>
   \<exists>w1 b. handleTouch cores3 (press_at 50 220) ins w = Continue (w1, ins)
     \<and> lastPressedButton w1 = Some b \<and> touchProcessed w1 \<and> state w1 = state w
     \<and> settingsMenu w1 = settingsMenu w \<and> settings w1 = settings w
     \<and> preferences w1 = preferences w
     \<and> label b = (if isMonitoring (state w) then ''Stop'' else ''Monitor'')
     \<and> \<not> contains b 50 100 \<and> contains b 50 220"
  by (simp add: handleTouch_eval_defs touch_defs)

lemma settings_press:
  "\<not> touchProcessed w \<Longrightarrow>
   \<exists>w1 b. handleTouch cores3 (press_at 250 220) ins w = Continue (w1, ins)
     \<and> lastPressedButton w1 = Some b \<and> touchProcessed w1 \<and> state w1 = state w
     \<and> settingsMenu w1 = settingsMenu w \<and> settings w1 = settings w
     \<and> preferences w1 = preferences w
     \<and> label b = (if isOpen (settingsMenu w) then ''Back'' else ''Settings'')
     \<and> contains b 250 220"
  by (simp add: handleTouch_eval_defs touch_defs)

lemma unit_item_press:
  "\<not> touchProcessed w \<Longrightarrow> isOpen (settingsMenu w) \<Longrightarrow>
   \<exists>w1. handleTouch cores3 (press_at 100 50) ins w = Continue (w1, ins)
     \<and> useCelsius (settings w1) = (\<not> useCelsius (settings w))
     \<and> lastPressedButton w1 = lastPressedButton w"
  by (simp add: handleTouch_eval_defs handleSettingsTouch_def menu_item_action_def obind_def
        save_def touch_defs)

lemma release_action_back:
  "label b = ''Back'' \<Longrightarrow> isOpen (settingsMenu w) \<Longrightarrow>
     \<not> isOpen (settingsMenu (release_action b w))
     \<and> currentScreen (state (release_action b w)) = MAIN"
  by (simp add: release_action_def Let_def)

lemma release_action_settings:
  "label b = ''Settings'' \<Longrightarrow> \<not> isOpen (settingsMenu w) \<Longrightarrow>
     isOpen (settingsMenu (release_action b w))
     \<and> currentScreen (state (release_action b w)) = SETTINGS
     \<and> isMonitoring (state (release_action b w)) = isMonitoring (state w)"
  by (simp add: release_action_def Let_def)

lemma release_action_monitor:
  "label b = ''Monitor'' \<Longrightarrow>
     isMonitoring (state (release_action b w)) = (\<not> isMonitoring (state w))"
  by (simp add: release_action_def Let_def)

text \<open>The state a release inside the armed button leads to.\<close>

lemma handleTouch_release_inside:
  assumes "touch_count t \<noteq> 0" "wasReleased t" "touchProcessed w" "lastPressedButton w = Some b"
    and "contains b (touch_x t) (touch_y t)"
  shows "\<exists>w'. handleTouch d t ins w = Continue (w', ins)
     \<and> state w' = state (release_action b (w\<lparr>touchProcessed := False\<rparr>))
     \<and> settingsMenu w' = settingsMenu (release_action b (w\<lparr>touchProcessed := False\<rparr>))
     \<and> settings w' = settings w \<and> preferences w' = preferences w
     \<and> lastPressedButton w' = None \<and> \<not> touchProcessed w'"
proof -
  obtain b' w2 where
    sp: "setPressed False b (release_action b (w\<lparr>touchProcessed := False\<rparr>)) = (b', w2)"
    by (cases "setPressed False b (release_action b (w\<lparr>touchProcessed := False\<rparr>))")
  from handleTouch_release [OF assms(1-4), of d ins] assms(5) sp
  have "handleTouch d t ins w = Continue (updateDisplay (w2\<lparr>lastPressedButton := None\<rparr>), ins)"
    by simp
  with setPressed_result [OF sp] show ?thesis
    by (simp add: same_program_state_def)
qed

text \<open>Press and release of the Settings button after power-up open the menu.\<close>

lemma settings_menu_opened:
  "\<exists>w. run_touch cores3 (press_at 250 220 # release_at 250 220 # rest) booted
         = run_touch cores3 rest w
     \<and> isOpen (settingsMenu w) \<and> \<not> touchProcessed w \<and> lastPressedButton w = None
     \<and> settings w = default_Settings \<and> preferences w = Map.empty
     \<and> \<not> isMonitoring (state w) \<and> currentScreen (state w) = SETTINGS"
proof -
  obtain w1 b where
    p: "handleTouch cores3 (press_at 250 220) (release_at 250 220 # rest) booted
         = Continue (w1, release_at 250 220 # rest)"
    and b: "lastPressedButton w1 = Some b" "touchProcessed w1" "state w1 = state booted"
      "settingsMenu w1 = settingsMenu booted" "settings w1 = settings booted"
      "preferences w1 = preferences booted" "label b = ''Settings''" "contains b 250 220"
    using settings_press [OF booted_fields(7), of "release_at 250 220 # rest"]
    by (auto simp: booted_fields)
  obtain w2 where r: "handleTouch cores3 (release_at 250 220) rest w1 = Continue (w2, rest)"
    and w2: "state w2 = state (release_action b (w1\<lparr>touchProcessed := False\<rparr>))"
      "settingsMenu w2 = settingsMenu (release_action b (w1\<lparr>touchProcessed := False\<rparr>))"
      "settings w2 = settings w1" "preferences w2 = preferences w1"
      "lastPressedButton w2 = None" "\<not> touchProcessed w2"
    using handleTouch_release_inside [of "release_at 250 220" w1 b cores3 rest] b
    by (auto simp: release_at_def)
  have c: "\<not> isOpen (settingsMenu (w1\<lparr>touchProcessed := False\<rparr>))"
    by (simp add: b booted_fields)
  from release_action_settings [OF b(7) c] w2 b
  have "isOpen (settingsMenu w2) \<and> \<not> touchProcessed w2 \<and> lastPressedButton w2 = None
     \<and> settings w2 = default_Settings \<and> preferences w2 = Map.empty
     \<and> \<not> isMonitoring (state w2) \<and> currentScreen (state w2) = SETTINGS"
    by (simp add: booted_fields)
  moreover have "run_touch cores3 (press_at 250 220 # release_at 250 220 # rest) booted
                 = run_touch cores3 rest w2"
    by (simp add: run_touch_Cons p r)
  ultimately show ?thesis by blast
qed

text \<open>Which samples can change what.\<close>

lemma handleTouch_mutations:
  assumes "handleTouch d t ins w = Continue (w', ins')"
  shows "((isMonitoring (state w') \<noteq> isMonitoring (state w)
           \<or> isOpen (settingsMenu w') \<noteq> isOpen (settingsMenu w)
           \<or> currentScreen (state w') \<noteq> currentScreen (state w)) \<longrightarrow>
          touch_count t \<noteq> 0 \<and> wasReleased t \<and> \<not> (wasPressed t \<and> \<not> touchProcessed w)
          \<and> (\<exists>b. lastPressedButton w = Some b \<and> contains b (touch_x t) (touch_y t)))
     \<and> (settings w' \<noteq> settings w \<or> preferences w' \<noteq> preferences w \<longrightarrow>
          touch_count t \<noteq> 0 \<and> wasPressed t \<and> \<not> touchProcessed w
          \<and> isOpen (settingsMenu w) \<and> touch_y t < display_height d - FOOTER_HEIGHT)"
proof (cases "touch_count t \<noteq> 0 \<and> wasPressed t \<and> \<not> touchProcessed w")
  case True
  with handleTouch_press_continue [OF _ _ _ assms] show ?thesis by simp
next
  case False
  from handleTouch_not_press [OF False, of d ins] assms False show ?thesis by auto
qed

text \<open>
  Claim C5, as amended: monitoring is toggled and the screen is switched only when a
  release sample is processed with its coordinates inside the armed button; a sample taken
  as a new press never does either. A settings-menu adjustment is applied differently: the
  settings and the store change only on a sample taken as a new press, in the open menu
  above the footer, and no release is needed. Such a press may also end in the restart that
  the emissivity dialogue issues.
\<close>

theorem mutations_by_sample_kind:
  "(\<forall>d t ins w w' ins'. handleTouch d t ins w = Continue (w', ins') \<longrightarrow>
      ((isMonitoring (state w') \<noteq> isMonitoring (state w)
         \<or> isOpen (settingsMenu w') \<noteq> isOpen (settingsMenu w)
         \<or> currentScreen (state w') \<noteq> currentScreen (state w)) \<longrightarrow>
        touch_count t \<noteq> 0 \<and> wasReleased t \<and> \<not> (wasPressed t \<and> \<not> touchProcessed w)
        \<and> (\<exists>b. lastPressedButton w = Some b \<and> contains b (touch_x t) (touch_y t)))
      \<and> (settings w' \<noteq> settings w \<or> preferences w' \<noteq> preferences w \<longrightarrow>
           touch_count t \<noteq> 0 \<and> wasPressed t \<and> \<not> touchProcessed w
           \<and> isOpen (settingsMenu w) \<and> touch_y t < display_height d - FOOTER_HEIGHT))
   \<and> (\<forall>d t ins w w'. handleTouch d t ins w = Restarted w' \<longrightarrow>
         touch_count t \<noteq> 0 \<and> wasPressed t \<and> \<not> touchProcessed w \<and> isOpen (settingsMenu w)
         \<and> state w' = state w \<and> isOpen (settingsMenu w') = isOpen (settingsMenu w))"
  using handleTouch_mutations handleTouch_restarted by blast

theorem mutations_by_sample_kind_witness:
  "\<not> wasReleased (press_at 50 220)
   \<and> map_option (isMonitoring \<circ> state) (returned (run_touch cores3 [press_at 50 220] booted))
      = Some False
   \<and> map_option (isMonitoring \<circ> state)
        (returned (run_touch cores3 [press_at 50 220, release_at 50 220] booted))
      = Some True"
proof -
  note mp = monitor_press [OF booted_fields(7) booted_fields(2)]
  obtain w1 b where p1: "handleTouch cores3 (press_at 50 220) [] booted = Continue (w1, [])"
    using mp [of "[]"] by blast
  obtain w2 b where
    p2: "handleTouch cores3 (press_at 50 220) [release_at 50 220] booted
         = Continue (w2, [release_at 50 220])"
    and b: "lastPressedButton w2 = Some b" "touchProcessed w2" "state w2 = state booted"
      "label b = ''Monitor''" "contains b 50 220"
    using mp [of "[release_at 50 220]"] by (auto simp: booted_fields)
  have nr: "\<not> wasReleased (press_at 50 220)" by (simp add: press_at_def)
  from mutations_by_sample_kind p1 nr
  have m1: "isMonitoring (state w1) = isMonitoring (state booted)" by blast
  obtain w3 where r: "handleTouch cores3 (release_at 50 220) [] w2 = Continue (w3, [])"
    and w3: "state w3 = state (release_action b (w2\<lparr>touchProcessed := False\<rparr>))"
    using handleTouch_release_inside [of "release_at 50 220" w2 b cores3 "[]"] b
    by (auto simp: release_at_def)
  have m3: "isMonitoring (state w3)"
    by (simp add: w3 release_action_monitor [OF b(4)] b(3) booted_fields)
  show ?thesis
    using nr m1 m3 by (simp add: run_touch_Cons p1 p2 r returned_def booted_fields)
qed

text \<open>
  After power-up the menu is opened with the Settings button; then a press on its first
  item changes the unit, with no release following.
\<close>

theorem mutations_on_release_counterexample:
  "useCelsius (settings booted) \<and> \<not> wasReleased (press_at 100 50)
   \<and> map_option (useCelsius \<circ> settings)
        (returned (run_touch cores3 [press_at 250 220, release_at 250 220] booted))
      = Some True
   \<and> map_option (useCelsius \<circ> settings)
        (returned (run_touch cores3 [press_at 250 220, release_at 250 220, press_at 100 50] booted))
      = Some False"
proof -
  obtain w0 where
    o0: "run_touch cores3 [press_at 250 220, release_at 250 220] booted = run_touch cores3 [] w0"
    and f0: "settings w0 = default_Settings"
    using settings_menu_opened [of "[]"] by blast
  obtain w where
    o: "run_touch cores3 [press_at 250 220, release_at 250 220, press_at 100 50] booted
        = run_touch cores3 [press_at 100 50] w"
    and f: "isOpen (settingsMenu w)" "\<not> touchProcessed w" "settings w = default_Settings"
    using settings_menu_opened [of "[press_at 100 50]"] by blast
  obtain w1 where p: "handleTouch cores3 (press_at 100 50) [] w = Continue (w1, [])"
    and u: "useCelsius (settings w1) = (\<not> useCelsius (settings w))"
    using unit_item_press [OF f(2) f(1), of "[]"] by blast
  have nr: "\<not> wasReleased (press_at 100 50)" by (simp add: press_at_def)
  have e0: "run_touch cores3 [press_at 250 220, release_at 250 220] booted = Continue w0"
    unfolding o0 by simp
  have e1: "run_touch cores3 [press_at 250 220, release_at 250 220, press_at 100 50] booted
            = Continue w1"
    unfolding o by (simp add: run_touch_Cons p)
  show ?thesis
    using u nr by (simp add: e0 e1 f0 f returned_def booted_fields default_Settings_def)
qed

text \<open>
  Claim C6 says that the release of the Back button persists the settings record as part of
  the transition from the menu to the main screen. The release branch of \<open>handleTouch\<close>
  closes the menu and does not call \<open>save\<close>: after power-up with an empty store, opening
  the menu with the Settings button and leaving it with the Back button leads to the main
  screen and leaves the store empty, where a save would have written every key. The
  \<open>save\<close> under "Check for back button touch" is in \<open>handleSettingsTouch\<close>, which
  \<open>handleTouch\<close> calls only for touches above the footer.
\<close>

theorem back_release_does_not_save:
  "preferences booted = Map.empty
   \<and> map_option (isOpen \<circ> settingsMenu)
        (returned (run_touch cores3 [press_at 250 220, release_at 250 220] booted))
      = Some True
   \<and> map_option (isOpen \<circ> settingsMenu)
        (returned (run_touch cores3
           [press_at 250 220, release_at 250 220, press_at 250 220, release_at 250 220] booted))
      = Some False
   \<and> map_option (currentScreen \<circ> state)
        (returned (run_touch cores3
           [press_at 250 220, release_at 250 220, press_at 250 220, release_at 250 220] booted))
      = Some MAIN
   \<and> map_option preferences
        (returned (run_touch cores3
           [press_at 250 220, release_at 250 220, press_at 250 220, release_at 250 220] booted))
      = Some Map.empty
   \<and> Settings_save default_Settings Map.empty ''brightness'' = Some (PInt 128)"
proof -
  obtain w0 where
    o0: "run_touch cores3 [press_at 250 220, release_at 250 220] booted = run_touch cores3 [] w0"
    and f0: "isOpen (settingsMenu w0)"
    using settings_menu_opened [of "[]"] by blast
  obtain w where
    o: "run_touch cores3
          [press_at 250 220, release_at 250 220, press_at 250 220, release_at 250 220] booted
        = run_touch cores3 [press_at 250 220, release_at 250 220] w"
    and f: "isOpen (settingsMenu w)" "\<not> touchProcessed w" "preferences w = Map.empty"
    using settings_menu_opened [of "[press_at 250 220, release_at 250 220]"] by blast
  obtain w1 b where
    p: "handleTouch cores3 (press_at 250 220) [release_at 250 220] w
         = Continue (w1, [release_at 250 220])"
    and b: "lastPressedButton w1 = Some b" "touchProcessed w1"
      "settingsMenu w1 = settingsMenu w" "preferences w1 = preferences w"
      "label b = ''Back''" "contains b 250 220"
    using settings_press [OF f(2), of "[release_at 250 220]"] f(1) by auto
  obtain w2 where r: "handleTouch cores3 (release_at 250 220) [] w1 = Continue (w2, [])"
    and w2: "state w2 = state (release_action b (w1\<lparr>touchProcessed := False\<rparr>))"
      "settingsMenu w2 = settingsMenu (release_action b (w1\<lparr>touchProcessed := False\<rparr>))"
      "preferences w2 = preferences w1"
    using handleTouch_release_inside [of "release_at 250 220" w1 b cores3 "[]"] b
    by (auto simp: release_at_def)
  have c: "isOpen (settingsMenu (w1\<lparr>touchProcessed := False\<rparr>))"
    by (simp add: b f)
  from release_action_back [OF b(5) c] w2 b(4) f(3)
  have "\<not> isOpen (settingsMenu w2)" "currentScreen (state w2) = MAIN" "preferences w2 = Map.empty"
    by simp_all
  moreover
  have "run_touch cores3 [press_at 250 220, release_at 250 220] booted = Continue w0"
    unfolding o0 by simp
  moreover
  have "run_touch cores3
          [press_at 250 220, release_at 250 220, press_at 250 220, release_at 250 220] booted
        = Continue w2"
    unfolding o by (simp add: run_touch_Cons p r)
  ultimately show ?thesis
    using f0 by (simp add: returned_def booted_fields)
       (simp add: Settings_save_def default_Settings_def DEFAULT_BRIGHTNESS_def)
qed

lemma ends_with_contact_here: "touch_count x \<noteq> 0 \<Longrightarrow> ends_with_contact (x # xs) xs"
  unfolding ends_with_contact_def by (rule exI [of _ "[]"]) simp

lemma ends_with_contact_Cons: "ends_with_contact xs ys \<Longrightarrow> ends_with_contact (x # xs) ys"
  unfolding ends_with_contact_def by (metis append_Cons)

lemma ends_with_contact_suffix:
  "suffix xs1 xs \<Longrightarrow> ends_with_contact xs1 ys \<Longrightarrow> ends_with_contact xs ys"
  unfolding ends_with_contact_def suffix_def by (metis append.assoc)

lemma ends_with_contact_last: "ends_with_contact xs [] \<Longrightarrow> touch_count (last xs) \<noteq> 0"
  unfolding ends_with_contact_def by auto

lemma adjusting_loop_polled:
  "adjusting_loop orig t c l ins w = Some (t', c', w', ins') \<Longrightarrow> ends_with_contact ins ins'"
  by (induction orig t c l ins w rule: adjusting_loop.induct)
     (auto split: if_splits intro: ends_with_contact_here ends_with_contact_Cons)

lemma waiting_loop_polled:
  "waiting_loop t ins w = Continue (w', ins') \<Longrightarrow> ends_with_contact ins ins'"
  by (induction t ins w rule: waiting_loop.induct)
     (auto simp: Let_def split: if_splits intro: ends_with_contact_here ends_with_contact_Cons)

lemma adjustEmissivity_polled:
  assumes "adjustEmissivity ins w = Continue (w', ins')"
  shows "ends_with_contact ins ins'"
proof -
  from assms obtain t c w1 ins1 where
    a: "adjusting_loop (emissivity (settings w)) (initial_tempEmissivity (emissivity (settings w)))
          False (- 1) ins (emit DrawEmissivityDialog w) = Some (t, c, w1, ins1)"
    by (auto simp: adjustEmissivity_def Let_def split: option.splits)
  note p1 = adjusting_loop_polled [OF a]
  have s1: "suffix ins1 ins"
    using adjusting_loop_result [OF a initial_tempEmissivity_range] by simp
  show ?thesis
  proof (cases c)
    case False
    with assms a have "ins' = ins1"
      by (auto simp: adjustEmissivity_def Let_def obind_def)
    with p1 show ?thesis by simp
  next
    case True
    with assms a obtain w2 where
      "waiting_loop t ins1 (emit DrawConfirmDialog w1) = Continue (w2, ins')"
      by (auto simp: adjustEmissivity_def Let_def obind_def split: outcome.splits)
    from ends_with_contact_suffix [OF s1 waiting_loop_polled [OF this]] show ?thesis .
  qed
qed

lemma menu_item_action_polled:
  "menu_item_action i ins w = Continue (w', ins') \<Longrightarrow> ins' = ins \<or> ends_with_contact ins ins'"
  by (auto simp: menu_item_action_def Let_def split: if_splits dest: adjustEmissivity_polled)

lemma handleSettingsTouch_polled:
  "handleSettingsTouch d tx ty ins w = Continue (w', ins')
   \<Longrightarrow> ins' = ins \<or> ends_with_contact ins ins'"
  unfolding handleSettingsTouch_def Let_def obind_def
  by (auto split: if_splits outcome.splits dest: menu_item_action_polled)

lemma handleTouch_polled:
  assumes "handleTouch d t ins w = Continue (w', ins')"
  shows "ins' = ins \<or> ends_with_contact ins ins'"
proof (cases "touch_count t \<noteq> 0 \<and> wasPressed t \<and> \<not> touchProcessed w")
  case False
  from handleTouch_not_press [OF False, of d ins] assms show ?thesis by auto
next
  case True
  with assms show ?thesis
    unfolding handleTouch_def Let_def
    by (auto split: if_splits prod.splits dest: handleSettingsTouch_polled)
qed

text \<open>After a run whose last sample shows no contact, no button is armed.\<close>

lemma run_touch_last_no_contact:
  "run_touch d xs w = Continue w' \<Longrightarrow> xs \<noteq> [] \<Longrightarrow> touch_count (last xs) = 0
   \<Longrightarrow> lastPressedButton w' = None \<and> \<not> touchProcessed w'"
proof (induction d xs w rule: run_touch.induct)
  case (1 d w)
  then show ?case by simp
next
  case (2 d t ts w)
  from "2.prems"(1) obtain w1 ts1 where
    h: "handleTouch d t ts w = Continue (w1, ts1)" and r: "run_touch d ts1 w1 = Continue w'"
    unfolding run_touch_Cons by (auto split: outcome.splits)
  have d: "drop (length ts - length ts1) ts = ts1"
    using handleTouch_suffix [OF h] by (rule suffix_drop_length)
  show ?case
  proof (cases "ts1 = []")
    case True
    have "ts = []"
    proof (rule ccontr)
      assume ne: "ts \<noteq> []"
      with handleTouch_polled [OF h] True have "ends_with_contact ts []" by auto
      from ends_with_contact_last [OF this] ne "2.prems"(3) show False by simp
    qed
    with "2.prems"(3) have "touch_count t = 0" by simp
    from handleTouch_no_contact [OF this, of d ts w] h r True show ?thesis by auto
  next
    case False
    from handleTouch_suffix [OF h] False have "last ts1 = last (t # ts)"
      by (auto simp: suffix_def)
    with "2.IH" [OF h refl, unfolded d, OF r False] "2.prems"(3) show ?thesis by simp
  qed
qed

text \<open>
  Claim C2: a release outside the armed button only disarms it: the button is redrawn as
  not pressed and the display updated, while settings, state, menu and store stay as they
  are. Whatever the sample, monitoring is not toggled and the screen is not switched while
  the coordinates are outside the armed button. A tick that reports no contact clears the
  armed button and the press latch and changes nothing else. Hence after any run of ticks
  whose last one reported no contact, no button is armed.
\<close>

theorem release_outside_and_touch_loss:
  "(\<forall>d t ins w b. touch_count t \<noteq> 0 \<and> wasReleased t \<and> touchProcessed w
        \<and> lastPressedButton w = Some b \<and> \<not> contains b (touch_x t) (touch_y t) \<longrightarrow>
      (\<exists>w'. handleTouch d t ins w = Continue (w', ins)
         \<and> lastPressedButton w' = None \<and> \<not> touchProcessed w'
         \<and> settings w' = settings w \<and> state w' = state w \<and> settingsMenu w' = settingsMenu w
         \<and> preferences w' = preferences w
         \<and> new_effects w w' = (if pressed b then [DrawButton (label b) False] else []) @ [UpdateDisplay]))
   \<and> (\<forall>d t ins w w' ins' b. handleTouch d t ins w = Continue (w', ins')
        \<and> lastPressedButton w = Some b \<and> \<not> contains b (touch_x t) (touch_y t) \<longrightarrow>
      isMonitoring (state w') = isMonitoring (state w)
      \<and> isOpen (settingsMenu w') = isOpen (settingsMenu w)
      \<and> currentScreen (state w') = currentScreen (state w))
   \<and> (\<forall>d t ins w. touch_count t = 0 \<longrightarrow>
      (\<exists>w'. handleTouch d t ins w = Continue (w', ins)
         \<and> lastPressedButton w' = None \<and> \<not> touchProcessed w'
         \<and> settings w' = settings w \<and> state w' = state w \<and> settingsMenu w' = settingsMenu w
         \<and> preferences w' = preferences w))
   \<and> (\<forall>d ss t w w'. run_touch d (ss @ [t]) w = Continue w' \<and> touch_count t = 0 \<longrightarrow>
      lastPressedButton w' = None \<and> \<not> touchProcessed w')"
proof (intro conjI allI impI)
  fix d and t :: TouchDetail and ins and w :: World and b
  assume "touch_count t \<noteq> 0 \<and> wasReleased t \<and> touchProcessed w
        \<and> lastPressedButton w = Some b \<and> \<not> contains b (touch_x t) (touch_y t)"
  then show "\<exists>w'. handleTouch d t ins w = Continue (w', ins)
         \<and> lastPressedButton w' = None \<and> \<not> touchProcessed w'
         \<and> settings w' = settings w \<and> state w' = state w \<and> settingsMenu w' = settingsMenu w
         \<and> preferences w' = preferences w
         \<and> new_effects w w' = (if pressed b then [DrawButton (label b) False] else []) @ [UpdateDisplay]"
    using handleTouch_release_outside [of t w b d ins] by blast
next
  fix d t ins w w' ins' b
  assume a: "handleTouch d t ins w = Continue (w', ins')
        \<and> lastPressedButton w = Some b \<and> \<not> contains b (touch_x t) (touch_y t)"
  from handleTouch_mutations [OF a [THEN conjunct1]] a
  show "isMonitoring (state w') = isMonitoring (state w)"
    "isOpen (settingsMenu w') = isOpen (settingsMenu w)"
    "currentScreen (state w') = currentScreen (state w)"
    by auto
next
  fix d and t :: TouchDetail and ins and w :: World
  assume "touch_count t = 0"
  then show "\<exists>w'. handleTouch d t ins w = Continue (w', ins)
         \<and> lastPressedButton w' = None \<and> \<not> touchProcessed w'
         \<and> settings w' = settings w \<and> state w' = state w \<and> settingsMenu w' = settingsMenu w
         \<and> preferences w' = preferences w"
    by (rule handleTouch_no_contact)
next
  fix d ss t w w'
  assume a: "run_touch d (ss @ [t]) w = Continue w' \<and> touch_count t = 0"
  from run_touch_last_no_contact [OF a [THEN conjunct1]] a
  show "lastPressedButton w' = None" "\<not> touchProcessed w'" by simp_all
qed

theorem release_outside_and_touch_loss_witness:
  "\<not> contains (new_Button 10 195 145 46 ''Monitor'' True True) 50 100
   \<and> map_option lastPressedButton
        (returned (run_touch cores3 [press_at 50 220, release_at 50 100] booted)) = Some None
   \<and> map_option (isMonitoring \<circ> state)
        (returned (run_touch cores3 [press_at 50 220, release_at 50 100] booted)) = Some False
   \<and> map_option lastPressedButton
        (returned (run_touch cores3 ([press_at 50 220] @ [no_touch]) booted)) = Some None"
proof -
  obtain w1 b where
    p: "handleTouch cores3 (press_at 50 220) [release_at 50 100] booted
         = Continue (w1, [release_at 50 100])"
    and b: "lastPressedButton w1 = Some b" "touchProcessed w1" "state w1 = state booted"
      "\<not> contains b 50 100"
    using monitor_press [OF booted_fields(7) booted_fields(2), of "[release_at 50 100]"] by blast
  have c: "touch_count (release_at 50 100) \<noteq> 0 \<and> wasReleased (release_at 50 100)
      \<and> touchProcessed w1 \<and> lastPressedButton w1 = Some b
      \<and> \<not> contains b (touch_x (release_at 50 100)) (touch_y (release_at 50 100))"
    using b by (simp add: release_at_def)
  from release_outside_and_touch_loss [THEN conjunct1, rule_format, OF c, of cores3 "[]"]
  obtain w2 where
    r: "handleTouch cores3 (release_at 50 100) [] w1 = Continue (w2, [])"
    and w2: "lastPressedButton w2 = None" "state w2 = state w1"
    by blast
  obtain w3 where
    q: "handleTouch cores3 (press_at 50 220) [no_touch] booted = Continue (w3, [no_touch])"
    using monitor_press [OF booted_fields(7) booted_fields(2), of "[no_touch]"] by blast
  have n: "touch_count no_touch = 0" by (simp add: no_touch_def)
  from release_outside_and_touch_loss
         [THEN conjunct2, THEN conjunct2, THEN conjunct1, rule_format, OF n, of cores3 "[]" w3]
  obtain w4 where
    s: "handleTouch cores3 no_touch [] w3 = Continue (w4, [])" and w4: "lastPressedButton w4 = None"
    by blast
  show ?thesis
    using w2 w4 b(3)
    by (simp add: run_touch_Cons p r q s returned_def booted_fields)
       (simp add: contains_def new_Button_def)
qed

end
